theory Spec2Isabelle
  imports Complex_Main
begin

section \<open>JavaScript values\<close>

text \<open>
  The AI service works on untyped values: whatever \<^verbatim>\<open>JSON.parse\<close> produces from the
  model's text, read with property accesses, \<^verbatim>\<open>||\<close> defaults and \<^verbatim>\<open>?.\<close> chains.
  \<open>jsval\<close> is the value domain of that code. An object is the association list of its own
  properties (looked up with \<open>map_of\<close>); a number is a real (\<open>0\<close> and \<open>-0\<close> are one value, both
  falsy; JSON text yields no NaN, and the Infinity of an overflowing literal is not
  represented); a string is a \<open>char list\<close>.
\<close>

datatype jsval =
    JUndefined
  | JNull
  | JBool bool
  | JNum real
  | JStr string
  | JArr "jsval list"
  | JObj "(string \<times> jsval) list"

text \<open>
  A thrown value. \<open>Error m\<close> is any value for which \<^verbatim>\<open>instanceof Error\<close> holds (Error and its
  subclasses, the engine's TypeError and SyntaxError included) with its \<^verbatim>\<open>message\<close>;
  \<open>NonError\<close> is any other thrown value. The message text of an engine-raised error is
  engine-specific; the two below are never observed by a caller, only logged.
\<close>

datatype thrown = Error string | NonError

definition TypeError :: thrown where
  "TypeError = Error ''TypeError''"

definition SyntaxError :: thrown where
  "SyntaxError = Error ''SyntaxError''"

text \<open>
  What the service takes from outside the repository: the engine's \<^verbatim>\<open>JSON.parse\<close>
  (\<open>None\<close> when it throws SyntaxError), the engine's number-to-string conversion used by
  template literals, and the successive results of \<^verbatim>\<open>generateId()\<close>, which is
  \<^verbatim>\<open>`${Date.now()}-${Math.random().toString(36).substr(2, 9)}`\<close>: the \<open>k\<close>-th call
  of one run returns \<open>generateId P k\<close>.
\<close>

record platform =
  JSON_parse :: "string \<Rightarrow> jsval option"
  Number_toString :: "real \<Rightarrow> string"
  generateId :: "nat \<Rightarrow> string"

fun truthy :: "jsval \<Rightarrow> bool" where
  "truthy JUndefined = False"
| "truthy JNull = False"
| "truthy (JBool b) = b"
| "truthy (JNum x) = (x \<noteq> 0)"
| "truthy (JStr s) = (s \<noteq> [])"
| "truthy (JArr xs) = True"
| "truthy (JObj kvs) = True"

fun nullish :: "jsval \<Rightarrow> bool" where
  "nullish JUndefined = True"
| "nullish JNull = True"
| "nullish v = False"

text \<open>\<^verbatim>\<open>a || b\<close> for an operand \<open>b\<close> whose evaluation has no effect.\<close>

definition or_else :: "jsval \<Rightarrow> jsval \<Rightarrow> jsval" where
  "or_else a b = (if truthy a then a else b)"

text \<open>
  \<open>property v k\<close> is \<^verbatim>\<open>v.k\<close> for a value \<open>v\<close> that is neither null nor undefined, for the
  property names the service reads (id, position, data, title, label, content, description,
  backgroundColor, borderColor, textColor, iconPath, icon, source, target, type, animated,
  nodes, edges, suggestions): none of them is defined on the prototype of an object, array,
  string, number or boolean, so only an own property of an object gives a value.
  \<open>member\<close> is the access as the engine runs it: reading a property of null or undefined
  throws a TypeError. \<open>opt_member\<close> is \<^verbatim>\<open>v?.k\<close>.
\<close>

fun property :: "jsval \<Rightarrow> string \<Rightarrow> jsval" where
  "property (JObj kvs) k = (case map_of kvs k of Some v \<Rightarrow> v | None \<Rightarrow> JUndefined)"
| "property v k = JUndefined"

definition member :: "jsval \<Rightarrow> string \<Rightarrow> thrown + jsval" where
  "member v k = (if nullish v then Inl TypeError else Inr (property v k))"

definition opt_member :: "jsval \<Rightarrow> string \<Rightarrow> jsval" where
  "opt_member v k = (if nullish v then JUndefined else property v k)"

text \<open>
  The receiver of \<^verbatim>\<open>.forEach(...)\<close> and \<^verbatim>\<open>.map(...)\<close>: an array is iterated; any other
  value has no callable property of that name (a parsed object can only hold data under
  it), so the call throws a TypeError.
\<close>

fun as_array :: "jsval \<Rightarrow> thrown + jsval list" where
  "as_array (JArr xs) = Inr xs"
| "as_array v = Inl TypeError"

subsection \<open>String conversion\<close>

definition digit :: "nat \<Rightarrow> char" where
  "digit d = ''0123456789'' ! d"

fun show_nat :: "nat \<Rightarrow> string" where
  "show_nat n = (if n < 10 then [digit n] else show_nat (n div 10) @ [digit (n mod 10)])"

declare show_nat.simps [simp del]

fun join :: "string \<Rightarrow> string list \<Rightarrow> string" where
  "join sep [] = []"
| "join sep [s] = s"
| "join sep (s # t # ss) = s @ sep @ join sep (t # ss)"

text \<open>
  The string a template literal \<^verbatim>\<open>`${v}`\<close> puts in place of \<open>v\<close>. An array joins its
  elements with commas, null and undefined elements as the empty string. An object gives
  \<^verbatim>\<open>[object Object]\<close> through the inherited \<^verbatim>\<open>toString\<close>; a parsed object that has a
  property named \<^verbatim>\<open>toString\<close> of its own hides the inherited method behind a value that
  cannot be called, and the conversion throws a TypeError.
\<close>

fun ToString :: "platform \<Rightarrow> jsval \<Rightarrow> thrown + string"
  and ToString_elements :: "platform \<Rightarrow> jsval list \<Rightarrow> thrown + string list" where
  "ToString P JUndefined = Inr ''undefined''"
| "ToString P JNull = Inr ''null''"
| "ToString P (JBool b) = Inr (if b then ''true'' else ''false'')"
| "ToString P (JNum x) = Inr (Number_toString P x)"
| "ToString P (JStr s) = Inr s"
| "ToString P (JArr xs) =
     (case ToString_elements P xs of Inl e \<Rightarrow> Inl e | Inr ss \<Rightarrow> Inr (join '','' ss))"
| "ToString P (JObj kvs) =
     (case map_of kvs ''toString'' of
        None \<Rightarrow> Inr ''[object Object]''
      | Some m \<Rightarrow> Inl TypeError)"
| "ToString_elements P [] = Inr []"
| "ToString_elements P (x # xs) =
     (case (if nullish x then Inr [] else ToString P x) of
        Inl e \<Rightarrow> Inl e
      | Inr s \<Rightarrow>
          (case ToString_elements P xs of
             Inl e \<Rightarrow> Inl e
           | Inr ss \<Rightarrow> Inr (s # ss)))"

section \<open>The diagram returned to the caller\<close>

record CustomNodeData =
  title :: jsval
  content :: jsval
  backgroundColor :: jsval
  borderColor :: jsval
  textColor :: jsval
  iconPath :: jsval

record Node =
  node_id :: jsval
  node_type :: string
  position :: jsval
  data :: CustomNodeData

record Edge =
  edge_id :: jsval
  source :: jsval
  target :: jsval
  edge_type :: jsval
  label :: jsval
  animated :: jsval

record DiagramGenerationResponse =
  diagram_title :: jsval
  diagram_description :: jsval
  nodes :: "Node list"
  edges :: "Edge list"
  suggestions :: jsval

definition xy :: "real \<Rightarrow> real \<Rightarrow> jsval" where
  "xy a b = JObj [(''x'', JNum a), (''y'', JNum b)]"

section \<open>parseAIResponse\<close>

text \<open>
  \<^verbatim>\<open>s.match(/\{[\s\S]*\}/)\<close> and \<^verbatim>\<open>s.match(/\[[\s\S]*\]/)\<close>: the leftmost match starts at
  the first opening character, and the greedy star runs to the last closing character of
  the string; there is a match exactly when a closing character follows the first opening
  one.
\<close>

definition match_delimited :: "char \<Rightarrow> char \<Rightarrow> string \<Rightarrow> string option" where
  "match_delimited opn cls s =
     (let t = dropWhile (\<lambda>c. c \<noteq> opn) s
      in if t = [] then None
         else if cls \<in> set (tl t) then Some (rev (dropWhile (\<lambda>c. c \<noteq> cls) (rev t)))
         else None)"

definition jsonString :: "string \<Rightarrow> string" where
  "jsonString response =
     (case match_delimited (CHR ''{'') (CHR ''}'') response of Some m \<Rightarrow> m | None \<Rightarrow> response)"

text \<open>
  The callback of \<^verbatim>\<open>(parsed.nodes || []).forEach((node, index) => ...)\<close>. \<open>c\<close> counts the
  calls of \<^verbatim>\<open>generateId\<close> made so far. Reading \<^verbatim>\<open>node.id\<close> is the first access and throws
  when the element is null; after it the element is known to be neither null nor undefined.
\<close>

definition nodeData :: "jsval \<Rightarrow> string \<Rightarrow> jsval" where
  "nodeData node k = opt_member (property node ''data'') k"

definition grid_position :: "nat \<Rightarrow> jsval" where
  "grid_position index = xy (real ((index mod 3) * 300 + 100)) (real ((index div 3) * 200 + 100))"

definition icon_path :: "platform \<Rightarrow> jsval \<Rightarrow> thrown + jsval" where
  "icon_path P node =
     (if truthy (nodeData node ''iconPath'') then Inr (nodeData node ''iconPath'')
      else if truthy (nodeData node ''icon'') then
        (case ToString P (nodeData node ''icon'') of
           Inl e \<Rightarrow> Inl e
         | Inr s \<Rightarrow> Inr (JStr (''/icons/'' @ s @ ''.png'')))
      else Inr JUndefined)"

definition containerNode :: "platform \<Rightarrow> jsval \<Rightarrow> nat \<Rightarrow> jsval \<Rightarrow> thrown + Node" where
  "containerNode P nodeId index node =
     (case icon_path P node of
        Inl e \<Rightarrow> Inl e
      | Inr icon \<Rightarrow>
          Inr \<lparr> node_id = nodeId,
                node_type = ''custom'',
                position = or_else (property node ''position'') (grid_position index),
                data =
                  \<lparr> title = or_else (nodeData node ''title'')
                              (or_else (nodeData node ''label'')
                                 (JStr (''Component '' @ show_nat (index + 1)))),
                    content = or_else (nodeData node ''content'')
                              (or_else (nodeData node ''description'')
                                 (JStr ''Component description'')),
                    backgroundColor = or_else (nodeData node ''backgroundColor'') (JStr ''#ffffff''),
                    borderColor = or_else (nodeData node ''borderColor'') (JStr ''#e5e7eb''),
                    textColor = or_else (nodeData node ''textColor'') (JStr ''#1f2937''),
                    iconPath = icon \<rparr> \<rparr>)"

fun build_nodes :: "platform \<Rightarrow> nat \<Rightarrow> nat \<Rightarrow> jsval list \<Rightarrow> thrown + Node list" where
  "build_nodes P c index [] = Inr []"
| "build_nodes P c index (node # rest) =
     (case member node ''id'' of
        Inl e \<Rightarrow> Inl e
      | Inr i \<Rightarrow>
          (case containerNode P (if truthy i then i else JStr (generateId P c)) index node of
             Inl e \<Rightarrow> Inl e
           | Inr n \<Rightarrow>
               (case build_nodes P (if truthy i then c else Suc c) (Suc index) rest of
                  Inl e \<Rightarrow> Inl e
                | Inr ns \<Rightarrow> Inr (n # ns))))"

text \<open>The callback of \<^verbatim>\<open>(parsed.edges || []).map((edge, index) => ...)\<close>.\<close>

definition make_edge :: "nat \<Rightarrow> jsval \<Rightarrow> thrown + Edge" where
  "make_edge index edge =
     (case member edge ''id'' of
        Inl e \<Rightarrow> Inl e
      | Inr i \<Rightarrow>
          Inr \<lparr> edge_id = or_else i (JStr (''edge-'' @ show_nat index)),
                source = property edge ''source'',
                target = property edge ''target'',
                edge_type = or_else (property edge ''type'') (JStr ''smoothstep''),
                label = property edge ''label'',
                animated = or_else (property edge ''animated'') (JBool False) \<rparr>)"

fun build_edges :: "nat \<Rightarrow> jsval list \<Rightarrow> thrown + Edge list" where
  "build_edges index [] = Inr []"
| "build_edges index (edge # rest) =
     (case make_edge index edge of
        Inl e \<Rightarrow> Inl e
      | Inr x \<Rightarrow>
          (case build_edges (Suc index) rest of
             Inl e \<Rightarrow> Inl e
           | Inr xs \<Rightarrow> Inr (x # xs)))"

definition createFallbackDiagram :: "string \<Rightarrow> DiagramGenerationResponse" where
  "createFallbackDiagram description =
     \<lparr> diagram_title = JStr ''Simple Diagram'',
       diagram_description = JStr description,
       nodes =
         [ \<lparr> node_id = JStr ''start-1'', node_type = ''custom'', position = xy 100 50,
             data = \<lparr> title = JStr ''Start'', content = JStr ''Starting point'',
                      backgroundColor = JUndefined, borderColor = JUndefined,
                      textColor = JUndefined, iconPath = JUndefined \<rparr> \<rparr>,
           \<lparr> node_id = JStr ''process-1'', node_type = ''custom'', position = xy 100 150,
             data = \<lparr> title = JStr ''Process'', content = JStr description,
                      backgroundColor = JStr ''#ffffff'', borderColor = JStr ''#d1d5db'',
                      textColor = JStr ''#1f2937'', iconPath = JUndefined \<rparr> \<rparr>,
           \<lparr> node_id = JStr ''end-1'', node_type = ''custom'', position = xy 100 250,
             data = \<lparr> title = JStr ''End'', content = JStr ''Completion point'',
                      backgroundColor = JUndefined, borderColor = JUndefined,
                      textColor = JUndefined, iconPath = JUndefined \<rparr> \<rparr> ],
       edges =
         [ \<lparr> edge_id = JStr ''e1-2'', source = JStr ''start-1'', target = JStr ''process-1'',
             edge_type = JUndefined, label = JUndefined, animated = JUndefined \<rparr>,
           \<lparr> edge_id = JStr ''e2-3'', source = JStr ''process-1'', target = JStr ''end-1'',
             edge_type = JUndefined, label = JUndefined, animated = JUndefined \<rparr> ],
       suggestions = JArr [JStr ''Add more detail to your description for better results''] \<rparr>"

text \<open>The body of the \<^verbatim>\<open>try\<close> block of \<^verbatim>\<open>parseAIResponse\<close>, every throw a branch.\<close>

definition parseAIResponse_try ::
  "platform \<Rightarrow> string \<Rightarrow> string \<Rightarrow> thrown + DiagramGenerationResponse" where
  "parseAIResponse_try P response originalDescription =
     (case JSON_parse P (jsonString response) of
        None \<Rightarrow> Inl SyntaxError
      | Some parsed \<Rightarrow>
     (case member parsed ''nodes'' of
        Inl e \<Rightarrow> Inl e
      | Inr ns \<Rightarrow>
     (case as_array (or_else ns (JArr [])) of
        Inl e \<Rightarrow> Inl e
      | Inr nodeList \<Rightarrow>
     (case build_nodes P 0 0 nodeList of
        Inl e \<Rightarrow> Inl e
      | Inr allNodes \<Rightarrow>
     (case as_array (or_else (property parsed ''edges'') (JArr [])) of
        Inl e \<Rightarrow> Inl e
      | Inr edgeList \<Rightarrow>
     (case build_edges 0 edgeList of
        Inl e \<Rightarrow> Inl e
      | Inr es \<Rightarrow>
          Inr \<lparr> diagram_title = or_else (property parsed ''title'') (JStr ''Generated Diagram''),
                diagram_description =
                  or_else (property parsed ''description'') (JStr originalDescription),
                nodes = allNodes,
                edges = es,
                suggestions = or_else (property parsed ''suggestions'') (JArr []) \<rparr>))))))"

text \<open>
  \<^verbatim>\<open>parseAIResponse\<close>: the \<^verbatim>\<open>catch\<close> clause logs whatever was thrown and returns the
  fallback diagram. \<open>Inl\<close> would be an exception leaving the method.
\<close>

definition parseAIResponse ::
  "platform \<Rightarrow> string \<Rightarrow> string \<Rightarrow> thrown + DiagramGenerationResponse" where
  "parseAIResponse P response originalDescription =
     (case parseAIResponse_try P response originalDescription of
        Inr result \<Rightarrow> Inr result
      | Inl error \<Rightarrow> Inr (createFallbackDiagram originalDescription))"

section \<open>The prompt\<close>

text \<open>
  \<^verbatim>\<open>/workflow|process flow|flowchart|steps|procedure|sequential/i.test(description)\<close>:
  some keyword occurs in the description, letters compared without case. Without the
  \<^verbatim>\<open>u\<close> flag only the ASCII letters fold onto the letters of these keywords.
\<close>

definition lower :: "char \<Rightarrow> char" where
  "lower c =
     (case map_of (zip ''ABCDEFGHIJKLMNOPQRSTUVWXYZ'' ''abcdefghijklmnopqrstuvwxyz'') c of
        Some l \<Rightarrow> l
      | None \<Rightarrow> c)"

fun starts_with :: "string \<Rightarrow> string \<Rightarrow> bool" where
  "starts_with s [] = True"
| "starts_with [] (k # ks) = False"
| "starts_with (c # s) (k # ks) = (c = k \<and> starts_with s ks)"

fun contains :: "string \<Rightarrow> string \<Rightarrow> bool" where
  "contains [] k = (k = [])"
| "contains (c # s) k = (starts_with (c # s) k \<or> contains s k)"

definition workflowKeywords :: "string list" where
  "workflowKeywords =
     [''workflow'', ''process flow'', ''flowchart'', ''steps'', ''procedure'', ''sequential'']"

definition isWorkflowType :: "string \<Rightarrow> bool" where
  "isWorkflowType description = list_ex (contains (map lower description)) workflowKeywords"

text \<open>
  The per-type configuration. Its prose fields (specificInstructions, layoutRules,
  nodeRules, edgeRules) are fixed texts that only go into the prompt and are left out.
  A type that is not a key of the table gets the container configuration.
\<close>

record ColorScheme =
  cs_background :: string
  cs_border :: string
  cs_text :: string

record DiagramTypeConfig =
  layoutStyle :: string
  edgeType :: string
  edgeLabel :: string
  cfg_animated :: bool
  colorScheme :: ColorScheme

definition container_config :: DiagramTypeConfig where
  "container_config =
     \<lparr> layoutStyle = ''grouped by containers with nested stacks inside'',
       edgeType = ''smoothstep'',
       edgeLabel = ''Data flow or API call'',
       cfg_animated = True,
       colorScheme = \<lparr> cs_background = ''#ffffff'', cs_border = ''#6b7280'', cs_text = ''#1f2937'' \<rparr> \<rparr>"

definition getDiagramTypeConfig :: "string \<Rightarrow> DiagramTypeConfig" where
  "getDiagramTypeConfig type =
     (if type = ''flowchart'' then
        \<lparr> layoutStyle = ''top-to-bottom or left-to-right flow with clear progression'',
          edgeType = ''straight'',
          edgeLabel = ''Action or condition'',
          cfg_animated = False,
          colorScheme = \<lparr> cs_background = ''#f0f9ff'', cs_border = ''#3b82f6'', cs_text = ''#1e40af'' \<rparr> \<rparr>
      else if type = ''container'' then container_config
      else if type = ''architecture'' then
        \<lparr> layoutStyle = ''hierarchical top-to-bottom or left-to-right with clear directional flow'',
          edgeType = ''straight'',
          edgeLabel = ''Data or control flow'',
          cfg_animated = False,
          colorScheme = \<lparr> cs_background = ''#f0fdfa'', cs_border = ''#14b8a6'', cs_text = ''#134e4a'' \<rparr> \<rparr>
      else container_config)"

record DiagramGenerationRequest =
  description :: string
  provider :: string
  model :: "string option"
  diagramType :: "string option"
  complexity :: "string option"

text \<open>
  The smart arrow detection of \<^verbatim>\<open>buildPrompt\<close>: the value written after
  \<^verbatim>\<open>"animated":\<close> in the JSON schema that the prompt shows to the model.
\<close>

definition animatedEdges :: "string \<Rightarrow> string \<Rightarrow> bool" where
  "animatedEdges type descr =
     (if type = ''container'' \<and> isWorkflowType descr then False
      else if type = ''container'' \<and> \<not> isWorkflowType descr then True
      else cfg_animated (getDiagramTypeConfig type))"

text \<open>
  A prompt is a fixed template text around interpolated values; it is carried as the
  values that are interpolated.
\<close>

record GeneratePrompt =
  prompt_description :: string
  prompt_diagramType :: string
  prompt_complexity :: string
  prompt_iconList :: string
  prompt_typeConfig :: DiagramTypeConfig
  prompt_animatedEdges :: bool

datatype prompt = Generate GeneratePrompt | Refine string

definition buildPrompt :: "DiagramGenerationRequest \<Rightarrow> string list \<Rightarrow> prompt" where
  "buildPrompt request availableIcons =
     (let type = (case diagramType request of Some t \<Rightarrow> t | None \<Rightarrow> ''container'');
          cplx = (case complexity request of Some c \<Rightarrow> c | None \<Rightarrow> ''medium'')
      in Generate
           \<lparr> prompt_description = description request,
             prompt_diagramType = type,
             prompt_complexity = cplx,
             prompt_iconList = join '', '' (take 150 availableIcons),
             prompt_typeConfig = getDiagramTypeConfig type,
             prompt_animatedEdges = animatedEdges type (description request) \<rparr>)"

section \<open>The service\<close>

text \<open>
  The service holds one client per provider, \<open>None\<close> until \<^verbatim>\<open>initializeProvider\<close> creates
  it; a client is identified by the API key it was created with. \<open>services\<close> is what the
  service calls: the stored API keys of the settings service, the icon names the icon
  service returns (its \<^verbatim>\<open>getAllIcons\<close> catches its own failures), and the provider
  request \<open>completion E p key m pr\<close> (provider, the client's key, model, prompt), which
  gives the text the \<^verbatim>\<open>generateWith...\<close> method extracts from the provider's answer, or
  what the request or the extraction throws.
\<close>

record AIService =
  openrouterClient :: "string option"
  groqClient :: "string option"
  geminiClient :: "string option"

record services =
  apiKeys :: "string \<Rightarrow> string option"
  allIcons :: "string list"
  completion :: "string \<Rightarrow> string \<Rightarrow> string \<Rightarrow> prompt \<Rightarrow> thrown + string"

text \<open>
  A step of the service that is visible outside it: the icon service is asked for its
  icons, a prompt is built (\<^verbatim>\<open>buildPrompt\<close> logs it), a request is sent to a provider.
\<close>

datatype event = IconsRequested | PromptBuilt | CompletionRequested string

definition getAPIKey :: "services \<Rightarrow> string \<Rightarrow> string option" where
  "getAPIKey E p = apiKeys E p"

definition initializeProvider :: "AIService \<Rightarrow> string \<Rightarrow> string \<Rightarrow> AIService" where
  "initializeProvider S p apiKey =
     (if p = ''openrouter'' then S\<lparr>openrouterClient := Some apiKey\<rparr>
      else if p = ''groq'' then S\<lparr>groqClient := Some apiKey\<rparr>
      else if p = ''gemini'' then S\<lparr>geminiClient := Some apiKey\<rparr>
      else S)"

text \<open>\<^verbatim>\<open>model || default\<close>.\<close>

definition model_or :: "string option \<Rightarrow> string \<Rightarrow> string" where
  "model_or m dflt = (case m of None \<Rightarrow> dflt | Some s \<Rightarrow> if s = [] then dflt else s)"

definition generateWithOpenRouter ::
  "services \<Rightarrow> AIService \<Rightarrow> prompt \<Rightarrow> string option \<Rightarrow> (thrown + string) \<times> event list" where
  "generateWithOpenRouter E S p m =
     (case openrouterClient S of
        None \<Rightarrow> (Inl (Error ''OpenRouter client not initialized''), [])
      | Some key \<Rightarrow>
          (completion E ''openrouter'' key (model_or m ''anthropic/claude-3.5-sonnet'') p,
           [CompletionRequested ''openrouter'']))"

definition generateWithGroq ::
  "services \<Rightarrow> AIService \<Rightarrow> prompt \<Rightarrow> string option \<Rightarrow> (thrown + string) \<times> event list" where
  "generateWithGroq E S p m =
     (case groqClient S of
        None \<Rightarrow> (Inl (Error ''Groq client not initialized''), [])
      | Some key \<Rightarrow>
          (completion E ''groq'' key (model_or m ''llama-3.1-70b-versatile'') p,
           [CompletionRequested ''groq'']))"

definition generateWithGemini ::
  "services \<Rightarrow> AIService \<Rightarrow> prompt \<Rightarrow> string option \<Rightarrow> (thrown + string) \<times> event list" where
  "generateWithGemini E S p m =
     (case geminiClient S of
        None \<Rightarrow> (Inl (Error ''Gemini client not initialized''), [])
      | Some key \<Rightarrow>
          (completion E ''gemini'' key (model_or m ''gemini-2.5-pro'') p,
           [CompletionRequested ''gemini'']))"

text \<open>
  The \<^verbatim>\<open>switch\<close> on the provider, written out in both \<^verbatim>\<open>generateDiagram\<close> and
  \<^verbatim>\<open>refineDescription\<close>; its \<^verbatim>\<open>default\<close> branch throws.
\<close>

definition dispatch ::
  "services \<Rightarrow> AIService \<Rightarrow> string \<Rightarrow> prompt \<Rightarrow> string option \<Rightarrow> (thrown + string) \<times> event list" where
  "dispatch E S p pr m =
     (if p = ''openrouter'' then generateWithOpenRouter E S pr m
      else if p = ''groq'' then generateWithGroq E S pr m
      else if p = ''gemini'' then generateWithGemini E S pr m
      else (Inl (Error (''Unsupported provider: '' @ p)), []))"

text \<open>\<^verbatim>\<open>error instanceof Error ? error.message : 'Unknown error'\<close>.\<close>

definition message_of :: "thrown \<Rightarrow> string" where
  "message_of error = (case error of Error m \<Rightarrow> m | NonError \<Rightarrow> ''Unknown error'')"

text \<open>
  \<^verbatim>\<open>generateDiagram\<close> returns the settled promise (\<open>Inl\<close> a rejection), the service with
  its clients, and the steps it went through, in order.
\<close>

definition generateDiagram ::
  "platform \<Rightarrow> services \<Rightarrow> AIService \<Rightarrow> DiagramGenerationRequest
     \<Rightarrow> (thrown + DiagramGenerationResponse) \<times> AIService \<times> event list" where
  "generateDiagram P E S request =
     (case getAPIKey E (provider request) of
        None \<Rightarrow>
          (Inl (Error (''API key not found for '' @ provider request
                       @ ''. Please configure your API key in settings.'')), S, [])
      | Some apiKey \<Rightarrow>
          if apiKey = [] then
            (Inl (Error (''API key not found for '' @ provider request
                         @ ''. Please configure your API key in settings.'')), S, [])
          else
            (let S' = initializeProvider S (provider request) apiKey;
                 pr = buildPrompt request (allIcons E);
                 (r, called) = dispatch E S' (provider request) pr (model request);
                 steps = [IconsRequested, PromptBuilt] @ called
             in case r of
                  Inl error \<Rightarrow>
                    (Inl (Error (''Failed to generate diagram: '' @ message_of error)), S', steps)
                | Inr response \<Rightarrow>
                    (case parseAIResponse P response (description request) of
                       Inl error \<Rightarrow>
                         (Inl (Error (''Failed to generate diagram: '' @ message_of error)), S', steps)
                     | Inr result \<Rightarrow> (Inr result, S', steps))))"

definition fallbackQuestions :: jsval where
  "fallbackQuestions =
     JArr [ JStr ''What are the main steps in this process?'',
            JStr ''Are there any decision points or conditions?'',
            JStr ''Who are the main actors or users involved?'',
            JStr ''What happens if something goes wrong?'' ]"

text \<open>The \<^verbatim>\<open>jsonString\<close> of \<^verbatim>\<open>refineDescription\<close>, cut at square brackets.\<close>

definition jsonString_refine :: "string \<Rightarrow> string" where
  "jsonString_refine response =
     (case match_delimited (CHR ''['') (CHR '']'') response of Some m \<Rightarrow> m | None \<Rightarrow> response)"

definition refineDescription ::
  "platform \<Rightarrow> services \<Rightarrow> AIService \<Rightarrow> string \<Rightarrow> string \<Rightarrow> string option
     \<Rightarrow> (thrown + jsval) \<times> AIService \<times> event list" where
  "refineDescription P E S descr p apiKey =
     (let S' = (case apiKey of
                  None \<Rightarrow> S
                | Some k \<Rightarrow> if k = [] then S else initializeProvider S p k);
          (r, called) = dispatch E S' p (Refine descr) None
      in case r of
           Inl error \<Rightarrow> (Inr fallbackQuestions, S', called)
         | Inr response \<Rightarrow>
             (case JSON_parse P (jsonString_refine response) of
                None \<Rightarrow> (Inr fallbackQuestions, S', called)
              | Some questions \<Rightarrow> (Inr questions, S', called)))"

section \<open>Properties of a returned diagram\<close>

text \<open>The ids the model supplied: the truthy \<^verbatim>\<open>id\<close> values of the parsed elements, in order.\<close>

definition supplied :: "jsval list \<Rightarrow> jsval list" where
  "supplied xs = filter truthy (map (\<lambda>x. property x ''id'') xs)"




fun is_string :: "jsval \<Rightarrow> bool" where
  "is_string (JStr s) = True"
| "is_string v = False"

fun is_string_array :: "jsval \<Rightarrow> bool" where
  "is_string_array (JArr xs) = list_all is_string xs"
| "is_string_array v = False"

text \<open>What \<^verbatim>\<open>refineDescription\<close> makes of the provider's outcome when it cannot use it.\<close>

definition refine_failed :: "platform \<Rightarrow> thrown + string \<Rightarrow> bool" where
  "refine_failed P r =
     (case r of Inl error \<Rightarrow> True | Inr response \<Rightarrow> JSON_parse P (jsonString_refine response) = None)"

section \<open>Example inputs\<close>

text \<open>
  Model answers, each with the value \<^verbatim>\<open>JSON.parse\<close> gives for it. \<open>example_platform\<close>
  parses these texts and rejects the texts below that are not JSON; its
  \<^verbatim>\<open>generateId\<close> results are a time stamp and a counter, and its number conversion
  prints the integers (no example converts a number).
\<close>

definition minimal_text :: string where
  \<open>minimal_text = ''{"title":"T","nodes":[{"data":{"title":"A"}}],"edges":[]}''\<close>

definition minimal_json :: jsval where
  "minimal_json =
     JObj [(''title'', JStr ''T''),
           (''nodes'', JArr [JObj [(''data'', JObj [(''title'', JStr ''A'')])]]),
           (''edges'', JArr [])]"


definition repeated_ids_text :: string where
  \<open>repeated_ids_text =
     ''{"nodes":[{"id":"a"},{"id":"a"}],"edges":[{"id":"e","source":"a","target":"a"},{"id":"e","source":"a","target":"a"}]}''\<close>

definition repeated_ids_json :: jsval where
  "repeated_ids_json =
     JObj [(''nodes'', JArr [JObj [(''id'', JStr ''a'')], JObj [(''id'', JStr ''a'')]]),
           (''edges'',
            JArr [JObj [(''id'', JStr ''e''), (''source'', JStr ''a''), (''target'', JStr ''a'')],
                  JObj [(''id'', JStr ''e''), (''source'', JStr ''a''), (''target'', JStr ''a'')]])]"

definition mixed_ids_text :: string where
  \<open>mixed_ids_text =
     ''{"nodes":[{"id":"a"},{},{"id":"b"},{}],"edges":[{"id":"e","source":"a","target":"b"},{"source":"b","target":"a"}]}''\<close>

definition mixed_ids_json :: jsval where
  "mixed_ids_json =
     JObj [(''nodes'', JArr [JObj [(''id'', JStr ''a'')], JObj [], JObj [(''id'', JStr ''b'')], JObj []]),
           (''edges'',
            JArr [JObj [(''id'', JStr ''e''), (''source'', JStr ''a''), (''target'', JStr ''b'')],
                  JObj [(''source'', JStr ''b''), (''target'', JStr ''a'')]])]"

definition repeated_edge_ids_text :: string where
  \<open>repeated_edge_ids_text =
     ''{"nodes":[{"id":"a"},{"id":"b"}],"edges":[{"id":"e","source":"a","target":"b"},{"id":"e","source":"b","target":"a"}]}''\<close>

definition repeated_edge_ids_json :: jsval where
  "repeated_edge_ids_json =
     JObj [(''nodes'', JArr [JObj [(''id'', JStr ''a'')], JObj [(''id'', JStr ''b'')]]),
           (''edges'',
            JArr [JObj [(''id'', JStr ''e''), (''source'', JStr ''a''), (''target'', JStr ''b'')],
                  JObj [(''id'', JStr ''e''), (''source'', JStr ''b''), (''target'', JStr ''a'')]])]"

definition two_services_text :: string where
  \<open>two_services_text =
     ''{"nodes":[{"id":"web"},{"id":"db"}],"edges":[{"source":"web","target":"db"}]}''\<close>

definition two_services_json :: jsval where
  "two_services_json =
     JObj [(''nodes'', JArr [JObj [(''id'', JStr ''web'')], JObj [(''id'', JStr ''db'')]]),
           (''edges'', JArr [JObj [(''source'', JStr ''web''), (''target'', JStr ''db'')]])]"

definition five_nodes_text :: string where
  \<open>five_nodes_text = ''{"nodes":[{},{},{},{},{"position":{"x":5,"y":7}}]}''\<close>

definition five_nodes_json :: jsval where
  "five_nodes_json =
     JObj [(''nodes'',
            JArr [JObj [], JObj [], JObj [], JObj [],
                  JObj [(''position'', JObj [(''x'', JNum 5), (''y'', JNum 7)])]])]"

text \<open>
  The diagrams expected for these texts. \<open>rebuilt_node\<close> is the node rebuilt at index \<open>k\<close>
  from an element without \<^verbatim>\<open>data\<close>, \<open>rebuilt_edge\<close> the edge rebuilt from an element
  without type, label and animated.
\<close>

definition rebuilt_node :: "jsval \<Rightarrow> nat \<Rightarrow> jsval \<Rightarrow> Node" where
  "rebuilt_node i k pos =
     \<lparr> node_id = i, node_type = ''custom'', position = pos,
       data = \<lparr> title = JStr (''Component '' @ show_nat (k + 1)),
                content = JStr ''Component description'',
                backgroundColor = JStr ''#ffffff'', borderColor = JStr ''#e5e7eb'',
                textColor = JStr ''#1f2937'', iconPath = JUndefined \<rparr> \<rparr>"

definition rebuilt_edge :: "jsval \<Rightarrow> jsval \<Rightarrow> jsval \<Rightarrow> Edge" where
  "rebuilt_edge i s t =
     \<lparr> edge_id = i, source = s, target = t, edge_type = JStr ''smoothstep'',
       label = JUndefined, animated = JBool False \<rparr>"

definition generated_diagram :: "string \<Rightarrow> Node list \<Rightarrow> Edge list \<Rightarrow> DiagramGenerationResponse" where
  "generated_diagram d ns es =
     \<lparr> diagram_title = JStr ''Generated Diagram'', diagram_description = JStr d,
       nodes = ns, edges = es, suggestions = JArr [] \<rparr>"

definition repeated_ids_diagram :: DiagramGenerationResponse where
  "repeated_ids_diagram =
     generated_diagram ''desc''
       [rebuilt_node (JStr ''a'') 0 (xy 100 100), rebuilt_node (JStr ''a'') 1 (xy 400 100)]
       [rebuilt_edge (JStr ''e'') (JStr ''a'') (JStr ''a''),
        rebuilt_edge (JStr ''e'') (JStr ''a'') (JStr ''a'')]"

definition mixed_ids_diagram :: DiagramGenerationResponse where
  "mixed_ids_diagram =
     generated_diagram ''desc''
       [rebuilt_node (JStr ''a'') 0 (xy 100 100),
        rebuilt_node (JStr ''1730544000000-0'') 1 (xy 400 100),
        rebuilt_node (JStr ''b'') 2 (xy 700 100),
        rebuilt_node (JStr ''1730544000000-1'') 3 (xy 100 300)]
       [rebuilt_edge (JStr ''e'') (JStr ''a'') (JStr ''b''),
        rebuilt_edge (JStr ''edge-1'') (JStr ''b'') (JStr ''a'')]"

definition repeated_edge_ids_diagram :: DiagramGenerationResponse where
  "repeated_edge_ids_diagram =
     generated_diagram ''desc''
       [rebuilt_node (JStr ''a'') 0 (xy 100 100), rebuilt_node (JStr ''b'') 1 (xy 400 100)]
       [rebuilt_edge (JStr ''e'') (JStr ''a'') (JStr ''b''),
        rebuilt_edge (JStr ''e'') (JStr ''b'') (JStr ''a'')]"

definition two_services_diagram :: "string \<Rightarrow> DiagramGenerationResponse" where
  "two_services_diagram d =
     generated_diagram d
       [rebuilt_node (JStr ''web'') 0 (xy 100 100), rebuilt_node (JStr ''db'') 1 (xy 400 100)]
       [rebuilt_edge (JStr ''edge-0'') (JStr ''web'') (JStr ''db'')]"



definition mixed_nodes :: "jsval list" where
  "mixed_nodes = [JObj [(''id'', JStr ''a'')], JObj [], JObj [(''id'', JStr ''b'')], JObj []]"

definition mixed_edges :: "jsval list" where
  "mixed_edges =
     [JObj [(''id'', JStr ''e''), (''source'', JStr ''a''), (''target'', JStr ''b'')],
      JObj [(''source'', JStr ''b''), (''target'', JStr ''a'')]]"

definition two_nodes :: "jsval list" where
  "two_nodes = [JObj [(''id'', JStr ''a'')], JObj [(''id'', JStr ''b'')]]"

definition repeated_edges :: "jsval list" where
  "repeated_edges =
     [JObj [(''id'', JStr ''e''), (''source'', JStr ''a''), (''target'', JStr ''b'')],
      JObj [(''id'', JStr ''e''), (''source'', JStr ''b''), (''target'', JStr ''a'')]]"

definition two_services_edges :: "jsval list" where
  "two_services_edges = [JObj [(''source'', JStr ''web''), (''target'', JStr ''db'')]]"

definition example_JSON_parse :: "string \<Rightarrow> jsval option" where
  "example_JSON_parse =
     map_of [(minimal_text, minimal_json),
             (repeated_ids_text, repeated_ids_json),
             (mixed_ids_text, mixed_ids_json),
             (repeated_edge_ids_text, repeated_edge_ids_json),
             (two_services_text, two_services_json),
             (five_nodes_text, five_nodes_json),
             (''42'', JNum 42),
             (''[1, 2]'', JArr [JNum 1, JNum 2])]"

definition example_platform :: platform where
  "example_platform =
     \<lparr> JSON_parse = example_JSON_parse,
       Number_toString = (\<lambda>x. (if x < 0 then ''-'' else []) @ show_nat (nat \<lfloor>\<bar>x\<bar>\<rfloor>)),
       generateId = (\<lambda>k. ''1730544000000-'' @ show_nat k) \<rparr>"

text \<open>
  A settings service holding a key for every provider name, with a provider that answers
  every request with the text \<open>r\<close>, or fails every request with \<open>r\<close>; and one holding no
  key at all.
\<close>

definition services_with :: "thrown + string \<Rightarrow> services" where
  "services_with r =
     \<lparr> apiKeys = (\<lambda>p. Some ''sk-example''),
       allIcons = [''aws'', ''docker'', ''postgresql''],
       completion = (\<lambda>p key m pr. r) \<rparr>"

definition services_without_keys :: services where
  "services_without_keys =
     \<lparr> apiKeys = (\<lambda>p. None),
       allIcons = [''aws'', ''docker'', ''postgresql''],
       completion = (\<lambda>p key m pr. Inr minimal_text) \<rparr>"

definition fresh_service :: AIService where
  "fresh_service = \<lparr> openrouterClient = None, groqClient = None, geminiClient = None \<rparr>"

definition example_request :: "string \<Rightarrow> string \<Rightarrow> DiagramGenerationRequest" where
  "example_request descr p =
     \<lparr> description = descr, provider = p, model = None,
       diagramType = Some ''container'', complexity = Some ''simple'' \<rparr>"

section \<open>Evaluation rules\<close>

lemmas parse_defs =
  parseAIResponse_def parseAIResponse_try_def jsonString_def match_delimited_def
  member_def opt_member_def or_else_def nodeData_def containerNode_def icon_path_def make_edge_def
  grid_position_def xy_def createFallbackDiagram_def TypeError_def SyntaxError_def

lemmas example_defs =
  example_platform_def example_JSON_parse_def minimal_text_def minimal_json_def
  repeated_ids_text_def repeated_ids_json_def mixed_ids_text_def mixed_ids_json_def
  two_services_text_def two_services_json_def five_nodes_text_def five_nodes_json_def
  repeated_edge_ids_text_def repeated_edge_ids_json_def

lemmas diagram_defs =
  rebuilt_node_def rebuilt_edge_def generated_diagram_def

lemma example_not_json [simp]:
  "JSON_parse example_platform (jsonString ''not json at all'') = None"
  by (simp add: parse_defs example_defs)

section \<open>Facts about the reconstruction\<close>




lemma containerNode_id: "containerNode P nodeId index node = Inr n \<Longrightarrow> node_id n = nodeId"
  by (auto simp: containerNode_def split: sum.splits)


lemma build_nodes_Cons:
  assumes "build_nodes P c i (node # rest) = Inr out"
  obtains n out' where
    "\<not> nullish node"
    "containerNode P (if truthy (property node ''id'') then property node ''id''
                      else JStr (generateId P c)) i node = Inr n"
    "build_nodes P (if truthy (property node ''id'') then c else Suc c) (Suc i) rest = Inr out'"
    "out = n # out'"
  using assms by (auto simp: member_def split: sum.splits if_splits)




lemma try_success:
  assumes "parseAIResponse_try P response d = Inr g"
  obtains parsed ns es where
    "JSON_parse P (jsonString response) = Some parsed"
    "\<not> nullish parsed"
    "or_else (property parsed ''nodes'') (JArr []) = JArr ns"
    "build_nodes P 0 0 ns = Inr (nodes g)"
    "or_else (property parsed ''edges'') (JArr []) = JArr es"
    "build_edges 0 es = Inr (edges g)"
proof -
  from assms obtain parsed where p: "JSON_parse P (jsonString response) = Some parsed"
    by (auto simp: parseAIResponse_try_def split: option.splits)
  from assms p have nn: "\<not> nullish parsed"
    by (auto simp: parseAIResponse_try_def member_def split: if_splits)
  from assms p nn obtain ns where
    ns: "as_array (or_else (property parsed ''nodes'') (JArr [])) = Inr ns"
    by (auto simp: parseAIResponse_try_def member_def split: sum.splits)
  from assms p nn ns obtain out where out: "build_nodes P 0 0 ns = Inr out"
    by (auto simp: parseAIResponse_try_def member_def split: sum.splits)
  from assms p nn ns out obtain es where
    es: "as_array (or_else (property parsed ''edges'') (JArr [])) = Inr es"
    by (auto simp: parseAIResponse_try_def member_def split: sum.splits)
  from assms p nn ns out es obtain eout where eout: "build_edges 0 es = Inr eout"
    by (auto simp: parseAIResponse_try_def member_def split: sum.splits)
  from assms p nn ns out es eout have g: "nodes g = out" "edges g = eout"
    by (auto simp: parseAIResponse_try_def member_def)
  have a: "or_else (property parsed ''nodes'') (JArr []) = JArr ns"
    using ns by (cases "or_else (property parsed ''nodes'') (JArr [])") auto
  have b: "or_else (property parsed ''edges'') (JArr []) = JArr es"
    using es by (cases "or_else (property parsed ''edges'') (JArr [])") auto
  show ?thesis using that [OF p nn a _ b] out eout g by simp
qed

lemma digit_inj: "a < 10 \<Longrightarrow> b < 10 \<Longrightarrow> digit a = digit b \<Longrightarrow> a = b"
proof -
  have "distinct ''0123456789''" by simp
  moreover assume "a < 10" "b < 10" "digit a = digit b"
  ultimately show ?thesis by (simp add: digit_def nth_eq_iff_index_eq)
qed

lemma show_nat_digit: "n < 10 \<Longrightarrow> show_nat n = [digit n]"
  by (simp add: show_nat.simps)

lemma show_nat_step:
  "\<not> n < 10 \<Longrightarrow> show_nat n = show_nat (n div 10) @ [digit (n mod 10)]"
  by (subst show_nat.simps) simp

lemma show_nat_nonempty: "show_nat n \<noteq> []"
  by (cases "n < 10") (simp_all add: show_nat_digit show_nat_step)

lemma show_nat_inj: "show_nat n = show_nat m \<Longrightarrow> n = m"
proof (induction n arbitrary: m rule: show_nat.induct)
  case (1 n)
  show ?case
  proof (cases "n < 10")
    case True
    show ?thesis
    proof (cases "m < 10")
      case True
      with \<open>n < 10\<close> "1.prems" show ?thesis by (simp add: show_nat_digit digit_inj)
    next
      case False
      with \<open>n < 10\<close> "1.prems" show ?thesis
        using show_nat_nonempty [of "m div 10"] by (simp add: show_nat_digit show_nat_step)
    qed
  next
    case False
    show ?thesis
    proof (cases "m < 10")
      case True
      with \<open>\<not> n < 10\<close> "1.prems" show ?thesis
        using show_nat_nonempty [of "n div 10"] by (simp add: show_nat_digit show_nat_step)
    next
      case m: False
      from False m "1.prems" have eq: "show_nat (n div 10) = show_nat (m div 10)"
        and d: "digit (n mod 10) = digit (m mod 10)"
        by (simp_all add: show_nat_step)
      from "1.IH" [OF False eq] have "n div 10 = m div 10" .
      moreover from d have "n mod 10 = m mod 10" by (simp add: digit_inj)
      ultimately show ?thesis by (metis div_mult_mod_eq)
    qed
  qed
qed

lemma build_nodes_ids:
  "build_nodes P c i ns = Inr out \<Longrightarrow>
     set (map node_id out) \<subseteq> set (supplied ns) \<union> (\<lambda>k. JStr (generateId P k)) ` {c..<c + length ns}"
proof (induction ns arbitrary: c i out)
  case Nil
  then show ?case by simp
next
  case (Cons node rest)
  let ?v = "property node ''id''"
  from Cons.prems obtain n out' where
    n: "containerNode P (if truthy ?v then ?v else JStr (generateId P c)) i node = Inr n"
    and r: "build_nodes P (if truthy ?v then c else Suc c) (Suc i) rest = Inr out'"
    and out: "out = n # out'"
    by (rule build_nodes_Cons)
  show ?case
  proof (cases "truthy ?v")
    case True
    with r have r': "build_nodes P c (Suc i) rest = Inr out'" by simp
    from Cons.IH [OF r'] True out containerNode_id [OF n] show ?thesis
      by (auto simp: supplied_def)
  next
    case False
    with r have r': "build_nodes P (Suc c) (Suc i) rest = Inr out'" by simp
    from Cons.IH [OF r'] False out containerNode_id [OF n] show ?thesis
      by (fastforce simp: supplied_def)
  qed
qed

lemma build_nodes_distinct:
  "build_nodes P c i ns = Inr out \<Longrightarrow> distinct (supplied ns) \<Longrightarrow>
   inj_on (generateId P) {c..<c + length ns} \<Longrightarrow>
   (\<forall>k\<in>{c..<c + length ns}. JStr (generateId P k) \<notin> set (supplied ns)) \<Longrightarrow>
   distinct (map node_id out)"
proof (induction ns arbitrary: c i out)
  case Nil
  then show ?case by simp
next
  case (Cons node rest)
  let ?v = "property node ''id''"
  from Cons.prems(1) obtain n out' where
    n: "containerNode P (if truthy ?v then ?v else JStr (generateId P c)) i node = Inr n"
    and r0: "build_nodes P (if truthy ?v then c else Suc c) (Suc i) rest = Inr out'"
    and out: "out = n # out'"
    by (rule build_nodes_Cons)
  show ?case
  proof (cases "truthy ?v")
    case True
    with r0 have r: "build_nodes P c (Suc i) rest = Inr out'" by simp
    from True containerNode_id [OF n] have idn: "node_id n = ?v" by simp
    from True Cons.prems(2) have d: "distinct (supplied rest)" and v: "?v \<notin> set (supplied rest)"
      by (simp_all add: supplied_def)
    from Cons.prems(3) have inj: "inj_on (generateId P) {c..<c + length rest}"
      by (rule inj_on_subset) auto
    from Cons.prems(4) True have fresh: "\<forall>k\<in>{c..<c + length rest}. JStr (generateId P k) \<notin> set (supplied rest)"
      and vg: "\<forall>k\<in>{c..<c + length rest}. JStr (generateId P k) \<noteq> ?v"
      by (auto simp: supplied_def)
    from Cons.IH [OF r d inj fresh] have "distinct (map node_id out')" .
    moreover from build_nodes_ids [OF r] v vg have "?v \<notin> set (map node_id out')" by auto
    ultimately show ?thesis using out idn by simp
  next
    case False
    with r0 have r: "build_nodes P (Suc c) (Suc i) rest = Inr out'" by simp
    from False containerNode_id [OF n] have idn: "node_id n = JStr (generateId P c)" by simp
    from False Cons.prems(2) have d: "distinct (supplied rest)" by (simp add: supplied_def)
    from False have s: "supplied (node # rest) = supplied rest" by (simp add: supplied_def)
    from Cons.prems(3) have inj: "inj_on (generateId P) {Suc c..<Suc c + length rest}"
      by (rule inj_on_subset) auto
    from Cons.prems(4) s have fresh:
      "\<forall>k\<in>{Suc c..<Suc c + length rest}. JStr (generateId P k) \<notin> set (supplied rest)"
      and cg: "JStr (generateId P c) \<notin> set (supplied rest)"
      by auto
    have ne: "\<forall>k\<in>{Suc c..<Suc c + length rest}. generateId P k \<noteq> generateId P c"
    proof
      fix k assume "k \<in> {Suc c..<Suc c + length rest}"
      then have "k \<in> {c..<c + length (node # rest)}" "c \<in> {c..<c + length (node # rest)}"
        "k \<noteq> c" by auto
      with Cons.prems(3) show "generateId P k \<noteq> generateId P c" by (auto dest: inj_onD)
    qed
    from Cons.IH [OF r d inj fresh] have "distinct (map node_id out')" .
    moreover have "JStr (generateId P c) \<notin> set (map node_id out')"
    proof
      assume "JStr (generateId P c) \<in> set (map node_id out')"
      with build_nodes_ids [OF r] consider "JStr (generateId P c) \<in> set (supplied rest)"
        | k where "k \<in> {Suc c..<Suc c + length rest}" "JStr (generateId P c) = JStr (generateId P k)"
        by auto
      then show False using cg ne by cases auto
    qed
    ultimately show ?thesis using out idn by simp
  qed
qed

lemma build_edges_length:
  "build_edges i es = Inr out \<Longrightarrow> length out = length es"
  by (induction es arbitrary: i out) (auto split: sum.splits)

lemma build_edges_nth:
  "build_edges i es = Inr out \<Longrightarrow> k < length es \<Longrightarrow> make_edge (i + k) (es ! k) = Inr (out ! k)"
proof (induction es arbitrary: i out k)
  case Nil
  then show ?case by simp
next
  case (Cons e rest)
  from Cons.prems(1) obtain x out' where
    x: "make_edge i e = Inr x" and out: "out = x # out'" and r: "build_edges (Suc i) rest = Inr out'"
    by (auto split: sum.splits)
  show ?case
  proof (cases k)
    case 0
    then show ?thesis using x out by simp
  next
    case (Suc j)
    with Cons.prems(2) have "j < length rest" by simp
    from Cons.IH [OF r this] Suc out show ?thesis by simp
  qed
qed

lemma make_edge_id:
  "make_edge i e = Inr x \<Longrightarrow>
     edge_id x = (if truthy (property e ''id'') then property e ''id''
                  else JStr (''edge-'' @ show_nat i))"
  by (auto simp: make_edge_def member_def or_else_def split: if_splits)

lemma build_edges_ids:
  "build_edges i es = Inr out \<Longrightarrow>
     set (map edge_id out) \<subseteq> set (supplied es) \<union>
       {JStr (''edge-'' @ show_nat (i + j)) | j. j < length es \<and> \<not> truthy (property (es ! j) ''id'')}"
proof (induction es arbitrary: i out)
  case Nil
  then show ?case by simp
next
  case (Cons e rest)
  from Cons.prems obtain x out' where
    x: "make_edge i e = Inr x" and out: "out = x # out'" and r: "build_edges (Suc i) rest = Inr out'"
    by (auto split: sum.splits)
  have hd: "edge_id x \<in> set (supplied (e # rest)) \<union>
       {JStr (''edge-'' @ show_nat (i + j)) | j. j < length (e # rest) \<and> \<not> truthy (property ((e # rest) ! j) ''id'')}"
  proof (cases "truthy (property e ''id'')")
    case True
    then show ?thesis using make_edge_id [OF x] by (simp add: supplied_def)
  next
    case False
    then have "edge_id x = JStr (''edge-'' @ show_nat (i + 0))" using make_edge_id [OF x] by simp
    moreover have "0 < length (e # rest) \<and> \<not> truthy (property ((e # rest) ! 0) ''id'')"
      using False by simp
    ultimately show ?thesis by blast
  qed
  have tl: "set (map edge_id out') \<subseteq> set (supplied (e # rest)) \<union>
       {JStr (''edge-'' @ show_nat (i + j)) | j. j < length (e # rest) \<and> \<not> truthy (property ((e # rest) ! j) ''id'')}"
  proof
    fix v assume "v \<in> set (map edge_id out')"
    with Cons.IH [OF r] consider "v \<in> set (supplied rest)"
      | j where "v = JStr (''edge-'' @ show_nat (Suc i + j))" "j < length rest"
          "\<not> truthy (property (rest ! j) ''id'')"
      by auto
    then show "v \<in> set (supplied (e # rest)) \<union>
       {JStr (''edge-'' @ show_nat (i + j)) | j. j < length (e # rest) \<and> \<not> truthy (property ((e # rest) ! j) ''id'')}"
    proof cases
      case 1
      then show ?thesis by (simp add: supplied_def)
    next
      case 2
      then have "v = JStr (''edge-'' @ show_nat (i + Suc j))" "Suc j < length (e # rest)"
        "\<not> truthy (property ((e # rest) ! Suc j) ''id'')" by simp_all
      then show ?thesis by blast
    qed
  qed
  from hd tl out show ?case by simp
qed

lemma build_edges_distinct:
  "build_edges i es = Inr out \<Longrightarrow> distinct (supplied es) \<Longrightarrow>
   (\<forall>j<length es. \<not> truthy (property (es ! j) ''id'') \<longrightarrow>
        JStr (''edge-'' @ show_nat (i + j)) \<notin> set (supplied es)) \<Longrightarrow>
   distinct (map edge_id out)"
proof (induction es arbitrary: i out)
  case Nil
  then show ?case by simp
next
  case (Cons e rest)
  let ?v = "property e ''id''"
  from Cons.prems(1) obtain x out' where
    x: "make_edge i e = Inr x" and out: "out = x # out'" and r: "build_edges (Suc i) rest = Inr out'"
    by (auto split: sum.splits)
  have sub: "set (supplied rest) \<subseteq> set (supplied (e # rest))" by (auto simp: supplied_def)
  from Cons.prems(2) have d: "distinct (supplied rest)" by (simp add: supplied_def split: if_splits)
  have fresh: "\<forall>j<length rest. \<not> truthy (property (rest ! j) ''id'') \<longrightarrow>
        JStr (''edge-'' @ show_nat (Suc i + j)) \<notin> set (supplied rest)"
  proof (intro allI impI)
    fix j assume "j < length rest" "\<not> truthy (property (rest ! j) ''id'')"
    then have "Suc j < length (e # rest)" "\<not> truthy (property ((e # rest) ! Suc j) ''id'')" by simp_all
    with Cons.prems(3) have "JStr (''edge-'' @ show_nat (i + Suc j)) \<notin> set (supplied (e # rest))"
      by blast
    with sub show "JStr (''edge-'' @ show_nat (Suc i + j)) \<notin> set (supplied rest)" by auto
  qed
  from Cons.IH [OF r d fresh] have dist: "distinct (map edge_id out')" .
  have "edge_id x \<notin> set (map edge_id out')"
  proof
    assume "edge_id x \<in> set (map edge_id out')"
    with build_edges_ids [OF r] consider "edge_id x \<in> set (supplied rest)"
      | j where "edge_id x = JStr (''edge-'' @ show_nat (Suc i + j))" "j < length rest"
          "\<not> truthy (property (rest ! j) ''id'')"
      by auto
    then show False
    proof cases
      case 1
      show False
      proof (cases "truthy ?v")
        case True
        with 1 make_edge_id [OF x] Cons.prems(2) show False by (simp add: supplied_def)
      next
        case False
        then have "edge_id x = JStr (''edge-'' @ show_nat (i + 0))" using make_edge_id [OF x] by simp
        moreover from Cons.prems(3) False
        have "JStr (''edge-'' @ show_nat (i + 0)) \<notin> set (supplied (e # rest))" by fastforce
        ultimately show False using 1 sub by auto
      qed
    next
      case 2
      then have s: "Suc j < length (e # rest)" "\<not> truthy (property ((e # rest) ! Suc j) ''id'')"
        by simp_all
      with Cons.prems(3) have nin: "JStr (''edge-'' @ show_nat (i + Suc j)) \<notin> set (supplied (e # rest))"
        by blast
      show False
      proof (cases "truthy ?v")
        case True
        then have "edge_id x \<in> set (supplied (e # rest))"
          using make_edge_id [OF x] by (simp add: supplied_def)
        with nin 2(1) show False by simp
      next
        case False
        then have "edge_id x = JStr (''edge-'' @ show_nat i)" using make_edge_id [OF x] by simp
        with 2(1) have "show_nat i = show_nat (Suc i + j)" by simp
        then have "i = Suc i + j" by (rule show_nat_inj)
        then show False by simp
      qed
    qed
  qed
  with dist out show ?case by simp
qed

lemma make_edge_animated:
  "make_edge i e = Inr x \<Longrightarrow> property e ''animated'' = JUndefined \<Longrightarrow> animated x = JBool False"
  by (auto simp: make_edge_def member_def or_else_def split: if_splits)

lemma build_edges_animated:
  "build_edges i es = Inr out \<Longrightarrow> list_all (\<lambda>e. property e ''animated'' = JUndefined) es \<Longrightarrow>
     list_all (\<lambda>x. animated x = JBool False) out"
  by (induction es arbitrary: i out) (auto split: sum.splits dest: make_edge_animated)



section \<open>The examples evaluated\<close>


lemma repeated_ids_parse:
  "parseAIResponse_try example_platform repeated_ids_text ''desc'' = Inr repeated_ids_diagram"
  by (simp add: parse_defs example_defs diagram_defs repeated_ids_diagram_def show_nat_digit digit_def)

lemma mixed_ids_parse:
  "parseAIResponse_try example_platform mixed_ids_text ''desc'' = Inr mixed_ids_diagram"
  by (simp add: parse_defs example_defs diagram_defs mixed_ids_diagram_def show_nat_digit digit_def)

lemma repeated_edge_ids_parse:
  "parseAIResponse_try example_platform repeated_edge_ids_text ''desc'' = Inr repeated_edge_ids_diagram"
  by (simp add: parse_defs example_defs diagram_defs repeated_edge_ids_diagram_def show_nat_digit
      digit_def)

lemma repeated_edge_ids_parses:
  "JSON_parse example_platform (jsonString repeated_edge_ids_text) = Some repeated_edge_ids_json"
  by (simp add: jsonString_def match_delimited_def example_defs)

lemma two_services_parse:
  "parseAIResponse_try example_platform two_services_text d = Inr (two_services_diagram d)"
  by (simp add: parse_defs example_defs diagram_defs two_services_diagram_def show_nat_digit digit_def)


lemma example_parses:
  "JSON_parse example_platform (jsonString minimal_text) = Some minimal_json"
  "JSON_parse example_platform (jsonString repeated_ids_text) = Some repeated_ids_json"
  "JSON_parse example_platform (jsonString mixed_ids_text) = Some mixed_ids_json"
  "JSON_parse example_platform (jsonString two_services_text) = Some two_services_json"
  "JSON_parse example_platform (jsonString five_nodes_text) = Some five_nodes_json"
  by (simp_all add: jsonString_def match_delimited_def example_defs)

lemma example_generateId_inj: "inj_on (generateId example_platform) A"
  by (auto simp: inj_on_def example_platform_def dest: show_nat_inj)

lemma not_workflow: "\<not> isWorkflowType ''web shop backend''"
  by (simp add: isWorkflowType_def workflowKeywords_def lower_def)

lemma is_workflow: "isWorkflowType ''Order WorkFlow''"
  by (simp add: isWorkflowType_def workflowKeywords_def lower_def)

lemma example_not_json_refine [simp]:
  "JSON_parse example_platform (jsonString_refine ''not json at all'') = None"
  by (simp add: jsonString_refine_def match_delimited_def example_defs)

lemma animatedEdges_examples:
  "animatedEdges ''container'' ''Order WorkFlow'' = False"
  "animatedEdges ''container'' ''web shop backend'' = True"
  "animatedEdges ''flowchart'' ''web shop backend'' = False"
  by (simp_all add: animatedEdges_def is_workflow not_workflow getDiagramTypeConfig_def)

section \<open>What the catch clause absorbs\<close>

text \<open>
  Three ways in which valid JSON ends in the fallback diagram: the text \<^verbatim>\<open>null\<close>, a
  \<^verbatim>\<open>nodes\<close> value that is truthy and not an array, and a null element in the node list.
  Valid JSON that is not an object but has no such defect goes through the success path
  and gives an empty diagram.
\<close>

lemma null_json_fallback:
  assumes "JSON_parse P (jsonString response) = Some JNull"
  shows "parseAIResponse P response d = Inr (createFallbackDiagram d)"
  using assms by (simp add: parseAIResponse_def parseAIResponse_try_def member_def)

lemma nodes_not_array_fallback:
  assumes "JSON_parse P (jsonString response) = Some parsed"
    and "truthy (property parsed ''nodes'')"
    and "as_array (property parsed ''nodes'') = Inl e"
  shows "parseAIResponse P response d = Inr (createFallbackDiagram d)"
  using assms
  by (auto simp: parseAIResponse_def parseAIResponse_try_def member_def or_else_def
      split: sum.splits)

lemma build_nodes_no_null: "build_nodes P c i ns = Inr out \<Longrightarrow> JNull \<notin> set ns"
proof (induction ns arbitrary: c i out)
  case Nil
  then show ?case by simp
next
  case (Cons node rest)
  from Cons.prems obtain n out' where
    "\<not> nullish node"
    "build_nodes P (if truthy (property node ''id'') then c else Suc c) (Suc i) rest = Inr out'"
    by (rule build_nodes_Cons)
  with Cons.IH show ?case by auto
qed

lemma build_nodes_null: "JNull \<in> set ns \<Longrightarrow> \<exists>e. build_nodes P c i ns = Inl e"
  using build_nodes_no_null [of P c i ns] by (cases "build_nodes P c i ns") auto

lemma null_node_fallback:
  assumes "JSON_parse P (jsonString response) = Some parsed"
    and "property parsed ''nodes'' = JArr ns"
    and "JNull \<in> set ns"
  shows "parseAIResponse P response d = Inr (createFallbackDiagram d)"
proof -
  from build_nodes_null [OF assms(3)] obtain e where "build_nodes P 0 0 ns = Inl e" by blast
  with assms(1,2) show ?thesis
    by (auto simp: parseAIResponse_def parseAIResponse_try_def member_def or_else_def
        split: sum.splits)
qed

lemma number_json_empty_diagram:
  "parseAIResponse example_platform ''42'' d = Inr (generated_diagram d [] [])"
  by (simp add: parse_defs example_defs diagram_defs)

section \<open>The normalizer is total\<close>

text \<open>
  C1. For every raw response text and every original description, \<^verbatim>\<open>parseAIResponse\<close>
  returns a diagram and throws nothing: whatever is thrown while extracting, parsing or
  rebuilding is caught inside.
\<close>

theorem parseAIResponse_never_throws:
  "(\<exists>g. parseAIResponse P response d = Inr g) \<and> (\<forall>e. parseAIResponse P response d \<noteq> Inl e)"
  by (simp add: parseAIResponse_def split: sum.split)

section \<open>The fallback diagram\<close>

text \<open>
  C2. When the text cut from the first opening brace to the last closing brace (or the whole
  response, without braces) is not parseable JSON, \<^verbatim>\<open>parseAIResponse s X\<close> is exactly
  the three-node diagram Start, Process, End: the Process node's content is \<open>X\<close>, the title
  is "Simple Diagram", two edges join the nodes in sequence, and there is one suggestion.
\<close>

theorem fallback_determinism:
  assumes "JSON_parse P (jsonString s) = None"
  shows "parseAIResponse P s X =
     Inr \<lparr> diagram_title = JStr ''Simple Diagram'',
       diagram_description = JStr X,
       nodes =
         [ \<lparr> node_id = JStr ''start-1'', node_type = ''custom'',
             position = JObj [(''x'', JNum 100), (''y'', JNum 50)],
             data = \<lparr> title = JStr ''Start'', content = JStr ''Starting point'',
                      backgroundColor = JUndefined, borderColor = JUndefined,
                      textColor = JUndefined, iconPath = JUndefined \<rparr> \<rparr>,
           \<lparr> node_id = JStr ''process-1'', node_type = ''custom'',
             position = JObj [(''x'', JNum 100), (''y'', JNum 150)],
             data = \<lparr> title = JStr ''Process'', content = JStr X,
                      backgroundColor = JStr ''#ffffff'', borderColor = JStr ''#d1d5db'',
                      textColor = JStr ''#1f2937'', iconPath = JUndefined \<rparr> \<rparr>,
           \<lparr> node_id = JStr ''end-1'', node_type = ''custom'',
             position = JObj [(''x'', JNum 100), (''y'', JNum 250)],
             data = \<lparr> title = JStr ''End'', content = JStr ''Completion point'',
                      backgroundColor = JUndefined, borderColor = JUndefined,
                      textColor = JUndefined, iconPath = JUndefined \<rparr> \<rparr> ],
       edges =
         [ \<lparr> edge_id = JStr ''e1-2'', source = JStr ''start-1'', target = JStr ''process-1'',
             edge_type = JUndefined, label = JUndefined, animated = JUndefined \<rparr>,
           \<lparr> edge_id = JStr ''e2-3'', source = JStr ''process-1'', target = JStr ''end-1'',
             edge_type = JUndefined, label = JUndefined, animated = JUndefined \<rparr> ],
       suggestions = JArr [JStr ''Add more detail to your description for better results''] \<rparr>"
  using assms
  by (simp add: parseAIResponse_def parseAIResponse_try_def createFallbackDiagram_def xy_def)

theorem fallback_determinism_witness:
  "JSON_parse example_platform (jsonString ''not json at all'') = None \<and>
   map_sum id (\<lambda>g. (diagram_title g, map node_id (nodes g), map (content \<circ> data) (nodes g),
                      map (\<lambda>e. (source e, target e)) (edges g)))
     (parseAIResponse example_platform ''not json at all'' ''Build a login flow'') =
   Inr (JStr ''Simple Diagram'', [JStr ''start-1'', JStr ''process-1'', JStr ''end-1''],
        [JStr ''Starting point'', JStr ''Build a login flow'', JStr ''Completion point''],
        [(JStr ''start-1'', JStr ''process-1''), (JStr ''process-1'', JStr ''end-1'')])"
  using fallback_determinism [of example_platform "''not json at all''" "''Build a login flow''"]
  by simp




section \<open>Positions\<close>



section \<open>Identifiers\<close>

text \<open>
  C3, as the claim states it, fails: the ids the model supplies are used as they are, so a
  response that repeats a node id and an edge id is rebuilt with the repeated ids.
\<close>

theorem id_uniqueness_counterexample:
  "parseAIResponse_try example_platform repeated_ids_text ''desc'' = Inr repeated_ids_diagram \<and>
   parseAIResponse example_platform repeated_ids_text ''desc'' = Inr repeated_ids_diagram \<and>
   map node_id (nodes repeated_ids_diagram) = [JStr ''a'', JStr ''a''] \<and>
   map edge_id (edges repeated_ids_diagram) = [JStr ''e'', JStr ''e''] \<and>
   \<not> distinct (map node_id (nodes repeated_ids_diagram)) \<and>
   \<not> distinct (map edge_id (edges repeated_ids_diagram))"
  by (simp add: parseAIResponse_def repeated_ids_parse) (simp add: diagram_defs repeated_ids_diagram_def)

text \<open>
  C3, amended. On the success path the returned node ids are pairwise distinct when the
  node ids the model supplied are pairwise distinct and the results of \<^verbatim>\<open>generateId\<close>
  differ from each other and from the supplied ids; the returned edge ids are pairwise
  distinct when the supplied edge ids are pairwise distinct and none of them is the
  \<^verbatim>\<open>edge-i\<close> made for an edge without id at index \<open>i\<close>.
\<close>

theorem ids_distinct:
  assumes "parseAIResponse_try P response d = Inr g"
    and "JSON_parse P (jsonString response) = Some parsed"
    and "or_else (property parsed ''nodes'') (JArr []) = JArr ns"
    and "or_else (property parsed ''edges'') (JArr []) = JArr es"
  shows "(distinct (supplied ns) \<and> inj_on (generateId P) {0..<length ns} \<and>
          (\<forall>k<length ns. JStr (generateId P k) \<notin> set (supplied ns))
            \<longrightarrow> distinct (map node_id (nodes g))) \<and>
         (distinct (supplied es) \<and>
          (\<forall>j<length es. \<not> truthy (property (es ! j) ''id'') \<longrightarrow>
                JStr (''edge-'' @ show_nat j) \<notin> set (supplied es))
            \<longrightarrow> distinct (map edge_id (edges g)))"
proof -
  from assms(1) obtain parsed' ns' es' where
    "JSON_parse P (jsonString response) = Some parsed'"
    "or_else (property parsed' ''nodes'') (JArr []) = JArr ns'"
    "build_nodes P 0 0 ns' = Inr (nodes g)"
    "or_else (property parsed' ''edges'') (JArr []) = JArr es'"
    "build_edges 0 es' = Inr (edges g)"
    by (rule try_success)
  with assms(2,3,4) have n: "build_nodes P 0 0 ns = Inr (nodes g)"
    and e: "build_edges 0 es = Inr (edges g)" by simp_all
  have node_half: "distinct (supplied ns) \<and> inj_on (generateId P) {0..<length ns} \<and>
          (\<forall>k<length ns. JStr (generateId P k) \<notin> set (supplied ns))
            \<longrightarrow> distinct (map node_id (nodes g))"
  proof
    assume h: "distinct (supplied ns) \<and> inj_on (generateId P) {0..<length ns} \<and>
          (\<forall>k<length ns. JStr (generateId P k) \<notin> set (supplied ns))"
    then have "distinct (supplied ns)" by simp
    with n show "distinct (map node_id (nodes g))"
      by (rule build_nodes_distinct) (use h in auto)
  qed
  have edge_half: "distinct (supplied es) \<and>
          (\<forall>j<length es. \<not> truthy (property (es ! j) ''id'') \<longrightarrow>
                JStr (''edge-'' @ show_nat j) \<notin> set (supplied es))
            \<longrightarrow> distinct (map edge_id (edges g))"
  proof
    assume h: "distinct (supplied es) \<and>
          (\<forall>j<length es. \<not> truthy (property (es ! j) ''id'') \<longrightarrow>
                JStr (''edge-'' @ show_nat j) \<notin> set (supplied es))"
    then have "distinct (supplied es)" by simp
    with e show "distinct (map edge_id (edges g))"
      by (rule build_edges_distinct) (use h in auto)
  qed
  from node_half edge_half show ?thesis ..
qed

text \<open>
  The witness takes both halves at a response with ids on some elements only, and the node
  half alone at a response whose node ids differ while its two edges share the id \<open>e\<close>.
\<close>

theorem ids_distinct_witness:
  "parseAIResponse_try example_platform mixed_ids_text ''desc'' = Inr mixed_ids_diagram \<and>
   JSON_parse example_platform (jsonString mixed_ids_text) = Some mixed_ids_json \<and>
   or_else (property mixed_ids_json ''nodes'') (JArr []) = JArr mixed_nodes \<and>
   or_else (property mixed_ids_json ''edges'') (JArr []) = JArr mixed_edges \<and>
   supplied mixed_nodes = [JStr ''a'', JStr ''b''] \<and>
   supplied mixed_edges = [JStr ''e''] \<and>
   inj_on (generateId example_platform) {0..<length mixed_nodes} \<and>
   map node_id (nodes mixed_ids_diagram)
     = [JStr ''a'', JStr ''1730544000000-0'', JStr ''b'', JStr ''1730544000000-1''] \<and>
   map edge_id (edges mixed_ids_diagram) = [JStr ''e'', JStr ''edge-1''] \<and>
   distinct (map node_id (nodes mixed_ids_diagram)) \<and>
   distinct (map edge_id (edges mixed_ids_diagram)) \<and>
   parseAIResponse_try example_platform repeated_edge_ids_text ''desc''
     = Inr repeated_edge_ids_diagram \<and>
   or_else (property repeated_edge_ids_json ''nodes'') (JArr []) = JArr two_nodes \<and>
   or_else (property repeated_edge_ids_json ''edges'') (JArr []) = JArr repeated_edges \<and>
   supplied two_nodes = [JStr ''a'', JStr ''b''] \<and>
   supplied repeated_edges = [JStr ''e'', JStr ''e''] \<and>
   map node_id (nodes repeated_edge_ids_diagram) = [JStr ''a'', JStr ''b''] \<and>
   distinct (map node_id (nodes repeated_edge_ids_diagram)) \<and>
   map edge_id (edges repeated_edge_ids_diagram) = [JStr ''e'', JStr ''e'']"
proof -
  have a: "parseAIResponse_try example_platform mixed_ids_text ''desc'' = Inr mixed_ids_diagram"
    by (rule mixed_ids_parse)
  have b: "JSON_parse example_platform (jsonString mixed_ids_text) = Some mixed_ids_json"
    by (rule example_parses)
  have c: "or_else (property mixed_ids_json ''nodes'') (JArr []) = JArr mixed_nodes"
    by (simp add: mixed_ids_json_def mixed_nodes_def or_else_def)
  have d: "or_else (property mixed_ids_json ''edges'') (JArr []) = JArr mixed_edges"
    by (simp add: mixed_ids_json_def mixed_edges_def or_else_def)
  have sn: "supplied mixed_nodes = [JStr ''a'', JStr ''b'']"
    by (simp add: supplied_def mixed_nodes_def)
  have se: "supplied mixed_edges = [JStr ''e'']"
    by (simp add: supplied_def mixed_edges_def)
  have f: "inj_on (generateId example_platform) {0..<length mixed_nodes}"
    by (rule example_generateId_inj)
  have node_hyp: "distinct (supplied mixed_nodes) \<and>
      inj_on (generateId example_platform) {0..<length mixed_nodes} \<and>
      (\<forall>k<length mixed_nodes. JStr (generateId example_platform k) \<notin> set (supplied mixed_nodes))"
    using f by (simp add: sn example_platform_def)
  have edge_hyp: "distinct (supplied mixed_edges) \<and>
      (\<forall>j<length mixed_edges. \<not> truthy (property (mixed_edges ! j) ''id'') \<longrightarrow>
           JStr (''edge-'' @ show_nat j) \<notin> set (supplied mixed_edges))"
    by (simp add: se)
  have ids: "map node_id (nodes mixed_ids_diagram)
     = [JStr ''a'', JStr ''1730544000000-0'', JStr ''b'', JStr ''1730544000000-1'']"
    "map edge_id (edges mixed_ids_diagram) = [JStr ''e'', JStr ''edge-1'']"
    by (simp_all add: diagram_defs mixed_ids_diagram_def)
  from ids_distinct [OF a b c d] node_hyp edge_hyp
  have first: "distinct (map node_id (nodes mixed_ids_diagram))"
    "distinct (map edge_id (edges mixed_ids_diagram))" by blast+
  have a': "parseAIResponse_try example_platform repeated_edge_ids_text ''desc''
     = Inr repeated_edge_ids_diagram" by (rule repeated_edge_ids_parse)
  have b': "JSON_parse example_platform (jsonString repeated_edge_ids_text)
     = Some repeated_edge_ids_json" by (rule repeated_edge_ids_parses)
  have c': "or_else (property repeated_edge_ids_json ''nodes'') (JArr []) = JArr two_nodes"
    by (simp add: repeated_edge_ids_json_def two_nodes_def or_else_def)
  have d': "or_else (property repeated_edge_ids_json ''edges'') (JArr []) = JArr repeated_edges"
    by (simp add: repeated_edge_ids_json_def repeated_edges_def or_else_def)
  have sn': "supplied two_nodes = [JStr ''a'', JStr ''b'']"
    by (simp add: supplied_def two_nodes_def)
  have se': "supplied repeated_edges = [JStr ''e'', JStr ''e'']"
    by (simp add: supplied_def repeated_edges_def)
  have node_hyp': "distinct (supplied two_nodes) \<and>
      inj_on (generateId example_platform) {0..<length two_nodes} \<and>
      (\<forall>k<length two_nodes. JStr (generateId example_platform k) \<notin> set (supplied two_nodes))"
    using example_generateId_inj [of "{0..<length two_nodes}"]
    by (simp add: sn' example_platform_def)
  have ids': "map node_id (nodes repeated_edge_ids_diagram) = [JStr ''a'', JStr ''b'']"
    "map edge_id (edges repeated_edge_ids_diagram) = [JStr ''e'', JStr ''e'']"
    by (simp_all add: diagram_defs repeated_edge_ids_diagram_def)
  from ids_distinct [OF a' b' c' d'] node_hyp'
  have second: "distinct (map node_id (nodes repeated_edge_ids_diagram))" by blast
  from a b c d sn se f ids first a' c' d' sn' se' ids' second show ?thesis by simp
qed

section \<open>Edge animation\<close>

text \<open>
  C4, as the claim states it, fails: for a container diagram whose description has no
  workflow keyword, an edge that the model returns without the animated field is rebuilt
  with \<^verbatim>\<open>animated: false\<close>, not \<^verbatim>\<open>true\<close>.
\<close>

theorem animation_heuristic_counterexample:
  "diagramType (example_request ''web shop backend'' ''groq'') = Some ''container'' \<and>
   \<not> isWorkflowType ''web shop backend'' \<and>
   fst (generateDiagram example_platform (services_with (Inr two_services_text)) fresh_service
          (example_request ''web shop backend'' ''groq''))
     = Inr (two_services_diagram ''web shop backend'') \<and>
   map animated (edges (two_services_diagram ''web shop backend'')) = [JBool False]"
  by (simp add: generateDiagram_def getAPIKey_def services_with_def example_request_def
      dispatch_def generateWithGroq_def initializeProvider_def fresh_service_def
      parseAIResponse_def two_services_parse isWorkflowType_def workflowKeywords_def lower_def)
     (simp add: diagram_defs two_services_diagram_def)

text \<open>
  C4, amended. On the success path of \<^verbatim>\<open>parseAIResponse\<close>, when the parsed edges omit the
  animated field, there is one generated edge for each of them and every generated edge has
  \<^verbatim>\<open>animated === false\<close>, whatever the diagram type and the description of the request.
  For diagramType 'container' (also when the request leaves the type out), the workflow
  keywords only decide the animated value that \<^verbatim>\<open>buildPrompt\<close> writes into the prompt for
  that request: false when the description contains, letters compared without case, one of
  "workflow", "process flow", "flowchart", "steps", "procedure", "sequential", and true when it
  contains none of them.
\<close>

theorem animation_default:
  assumes "parseAIResponse_try P response (description request) = Inr g"
    and "JSON_parse P (jsonString response) = Some parsed"
    and "property parsed ''edges'' = JArr es"
    and "list_all (\<lambda>e. property e ''animated'' = JUndefined) es"
  shows "length (edges g) = length es \<and>
    list_all (\<lambda>x. animated x = JBool False) (edges g) \<and>
    (diagramType request = Some ''container'' \<or> diagramType request = None \<longrightarrow>
      (case buildPrompt request icons of
         Generate gp \<Rightarrow>
           prompt_diagramType gp = ''container'' \<and>
           prompt_description gp = description request \<and>
           prompt_animatedEdges gp =
             (\<not> (contains (map lower (description request)) ''workflow'' \<or>
                 contains (map lower (description request)) ''process flow'' \<or>
                 contains (map lower (description request)) ''flowchart'' \<or>
                 contains (map lower (description request)) ''steps'' \<or>
                 contains (map lower (description request)) ''procedure'' \<or>
                 contains (map lower (description request)) ''sequential''))
       | Refine x \<Rightarrow> False))"
proof -
  from assms(1) obtain parsed' es' where
    "JSON_parse P (jsonString response) = Some parsed'"
    "or_else (property parsed' ''edges'') (JArr []) = JArr es'"
    "build_edges 0 es' = Inr (edges g)"
    by (rule try_success)
  with assms(2,3) have e: "build_edges 0 es = Inr (edges g)" by (simp add: or_else_def)
  have edges_part: "length (edges g) = length es"
    "list_all (\<lambda>x. animated x = JBool False) (edges g)"
    using build_edges_length [OF e] build_edges_animated [OF e assms(4)] by simp_all
  have prompt_part:
    "diagramType request = Some ''container'' \<or> diagramType request = None \<longrightarrow>
      (case buildPrompt request icons of
         Generate gp \<Rightarrow>
           prompt_diagramType gp = ''container'' \<and>
           prompt_description gp = description request \<and>
           prompt_animatedEdges gp =
             (\<not> (contains (map lower (description request)) ''workflow'' \<or>
                 contains (map lower (description request)) ''process flow'' \<or>
                 contains (map lower (description request)) ''flowchart'' \<or>
                 contains (map lower (description request)) ''steps'' \<or>
                 contains (map lower (description request)) ''procedure'' \<or>
                 contains (map lower (description request)) ''sequential''))
       | Refine x \<Rightarrow> False)"
    by (auto simp: buildPrompt_def Let_def animatedEdges_def isWorkflowType_def workflowKeywords_def)
  from edges_part prompt_part show ?thesis by blast
qed

text \<open>
  The witness takes the same model answer for two container requests: one whose description
  has no keyword, and one whose description has the keyword "steps" in capitals.
\<close>

theorem animation_default_witness:
  "parseAIResponse_try example_platform two_services_text
       (description (example_request ''web shop backend'' ''groq''))
     = Inr (two_services_diagram ''web shop backend'') \<and>
   JSON_parse example_platform (jsonString two_services_text) = Some two_services_json \<and>
   property two_services_json ''edges'' = JArr two_services_edges \<and>
   list_all (\<lambda>e. property e ''animated'' = JUndefined) two_services_edges \<and>
   diagramType (example_request ''web shop backend'' ''groq'') = Some ''container'' \<and>
   map animated (edges (two_services_diagram ''web shop backend'')) = [JBool False] \<and>
   buildPrompt (example_request ''web shop backend'' ''groq'') [''aws'', ''docker'', ''postgresql'']
     = Generate \<lparr> prompt_description = ''web shop backend'',
                  prompt_diagramType = ''container'',
                  prompt_complexity = ''simple'',
                  prompt_iconList = ''aws, docker, postgresql'',
                  prompt_typeConfig = container_config,
                  prompt_animatedEdges = True \<rparr> \<and>
   parseAIResponse_try example_platform two_services_text
       (description (example_request ''Checkout STEPS'' ''groq''))
     = Inr (two_services_diagram ''Checkout STEPS'') \<and>
   map animated (edges (two_services_diagram ''Checkout STEPS'')) = [JBool False] \<and>
   buildPrompt (example_request ''Checkout STEPS'' ''groq'') [''aws'', ''docker'', ''postgresql'']
     = Generate \<lparr> prompt_description = ''Checkout STEPS'',
                  prompt_diagramType = ''container'',
                  prompt_complexity = ''simple'',
                  prompt_iconList = ''aws, docker, postgresql'',
                  prompt_typeConfig = container_config,
                  prompt_animatedEdges = False \<rparr>"
proof -
  let ?icons = "[''aws'', ''docker'', ''postgresql'']"
  let ?r1 = "example_request ''web shop backend'' ''groq''"
  let ?r2 = "example_request ''Checkout STEPS'' ''groq''"
  have a1: "parseAIResponse_try example_platform two_services_text (description ?r1)
     = Inr (two_services_diagram ''web shop backend'')"
    by (simp add: example_request_def two_services_parse)
  have a2: "parseAIResponse_try example_platform two_services_text (description ?r2)
     = Inr (two_services_diagram ''Checkout STEPS'')"
    by (simp add: example_request_def two_services_parse)
  have b: "JSON_parse example_platform (jsonString two_services_text) = Some two_services_json"
    by (rule example_parses)
  have c: "property two_services_json ''edges'' = JArr two_services_edges"
    by (simp add: two_services_json_def two_services_edges_def)
  have d: "list_all (\<lambda>e. property e ''animated'' = JUndefined) two_services_edges"
    by (simp add: two_services_edges_def)
  have t1: "diagramType ?r1 = Some ''container''" and t2: "diagramType ?r2 = Some ''container''"
    by (simp_all add: example_request_def)
  have shape: "\<And>descr. \<exists>b. buildPrompt (example_request descr ''groq'') ?icons
     = Generate \<lparr> prompt_description = descr,
                  prompt_diagramType = ''container'',
                  prompt_complexity = ''simple'',
                  prompt_iconList = ''aws, docker, postgresql'',
                  prompt_typeConfig = container_config,
                  prompt_animatedEdges = b \<rparr>"
    by (simp add: buildPrompt_def Let_def example_request_def getDiagramTypeConfig_def)
  have k1: "\<not> (contains (map lower (description ?r1)) ''workflow'' \<or>
                 contains (map lower (description ?r1)) ''process flow'' \<or>
                 contains (map lower (description ?r1)) ''flowchart'' \<or>
                 contains (map lower (description ?r1)) ''steps'' \<or>
                 contains (map lower (description ?r1)) ''procedure'' \<or>
                 contains (map lower (description ?r1)) ''sequential'')"
    by (simp add: example_request_def lower_def)
  have k2: "contains (map lower (description ?r2)) ''steps''"
    by (simp add: example_request_def lower_def)
  from animation_default [OF a1 b c d, of ?icons] t1
  have e1: "list_all (\<lambda>x. animated x = JBool False) (edges (two_services_diagram ''web shop backend''))"
    and p1: "case buildPrompt ?r1 ?icons of
         Generate gp \<Rightarrow>
           prompt_diagramType gp = ''container'' \<and>
           prompt_description gp = description ?r1 \<and>
           prompt_animatedEdges gp =
             (\<not> (contains (map lower (description ?r1)) ''workflow'' \<or>
                 contains (map lower (description ?r1)) ''process flow'' \<or>
                 contains (map lower (description ?r1)) ''flowchart'' \<or>
                 contains (map lower (description ?r1)) ''steps'' \<or>
                 contains (map lower (description ?r1)) ''procedure'' \<or>
                 contains (map lower (description ?r1)) ''sequential''))
       | Refine x \<Rightarrow> False"
    by blast+
  from animation_default [OF a2 b c d, of ?icons] t2
  have e2: "list_all (\<lambda>x. animated x = JBool False) (edges (two_services_diagram ''Checkout STEPS''))"
    and p2: "case buildPrompt ?r2 ?icons of
         Generate gp \<Rightarrow>
           prompt_diagramType gp = ''container'' \<and>
           prompt_description gp = description ?r2 \<and>
           prompt_animatedEdges gp =
             (\<not> (contains (map lower (description ?r2)) ''workflow'' \<or>
                 contains (map lower (description ?r2)) ''process flow'' \<or>
                 contains (map lower (description ?r2)) ''flowchart'' \<or>
                 contains (map lower (description ?r2)) ''steps'' \<or>
                 contains (map lower (description ?r2)) ''procedure'' \<or>
                 contains (map lower (description ?r2)) ''sequential''))
       | Refine x \<Rightarrow> False"
    by blast+
  from shape [of "''web shop backend''"] p1 k1
  have q1: "buildPrompt ?r1 ?icons
     = Generate \<lparr> prompt_description = ''web shop backend'',
                  prompt_diagramType = ''container'',
                  prompt_complexity = ''simple'',
                  prompt_iconList = ''aws, docker, postgresql'',
                  prompt_typeConfig = container_config,
                  prompt_animatedEdges = True \<rparr>"
    by auto
  from shape [of "''Checkout STEPS''"] p2 k2
  have q2: "buildPrompt ?r2 ?icons
     = Generate \<lparr> prompt_description = ''Checkout STEPS'',
                  prompt_diagramType = ''container'',
                  prompt_complexity = ''simple'',
                  prompt_iconList = ''aws, docker, postgresql'',
                  prompt_typeConfig = container_config,
                  prompt_animatedEdges = False \<rparr>"
    by auto
  have len: "\<And>descr. length (edges (two_services_diagram descr)) = 1"
    by (simp add: diagram_defs two_services_diagram_def)
  from e1 len [of "''web shop backend''"]
  have m1: "map animated (edges (two_services_diagram ''web shop backend'')) = [JBool False]"
    by (cases "edges (two_services_diagram ''web shop backend'')") auto
  from e2 len [of "''Checkout STEPS''"]
  have m2: "map animated (edges (two_services_diagram ''Checkout STEPS'')) = [JBool False]"
    by (cases "edges (two_services_diagram ''Checkout STEPS'')") auto
  from a1 a2 b c d t1 m1 m2 q1 q2 show ?thesis by simp
qed

section \<open>generateDiagram\<close>

text \<open>
  C7. When no API key is stored for the requested provider (or the stored key is the empty
  string), \<^verbatim>\<open>generateDiagram\<close> rejects with the missing-key error, and it has done
  nothing before: no client is created, the icons are not requested, no prompt is built and
  no provider is called. The error reaches the caller as it is thrown; no diagram is
  returned in its place.
\<close>

theorem missing_key_rejects:
  assumes "getAPIKey E (provider request) = None \<or> getAPIKey E (provider request) = Some []"
  shows "generateDiagram P E S request =
     (Inl (Error (''API key not found for '' @ provider request
                  @ ''. Please configure your API key in settings.'')), S, [])"
  using assms by (auto simp: generateDiagram_def)

theorem missing_key_rejects_witness:
  "getAPIKey services_without_keys (provider (example_request ''Build a login flow'' ''groq'')) = None \<and>
   generateDiagram example_platform services_without_keys fresh_service
       (example_request ''Build a login flow'' ''groq'') =
     (Inl (Error ''API key not found for groq. Please configure your API key in settings.''),
      fresh_service, [])"
  using missing_key_rejects [of services_without_keys "example_request ''Build a login flow'' ''groq''"
      example_platform fresh_service]
  by (simp add: getAPIKey_def services_without_keys_def example_request_def)

text \<open>
  C6. With a key stored, when the provider switch throws (the provider request fails, or
  the provider is not one of the three), \<^verbatim>\<open>generateDiagram\<close> rejects with one error whose
  message is "Failed to generate diagram: " followed by the message of what was thrown
  ("Unknown error" when the thrown value is not an Error object); it does not resolve with
  the fallback diagram.
\<close>

theorem provider_failure_reraised:
  assumes "getAPIKey E (provider request) = Some k"
    and "k \<noteq> []"
    and "fst (dispatch E (initializeProvider S (provider request) k) (provider request)
            (buildPrompt request (allIcons E)) (model request)) = Inl t"
  shows "fst (generateDiagram P E S request) =
           Inl (Error (''Failed to generate diagram: ''
                       @ (case t of Error m \<Rightarrow> m | NonError \<Rightarrow> ''Unknown error''))) \<and>
         fst (generateDiagram P E S request) \<noteq> Inr (createFallbackDiagram (description request))"
  using assms
  by (auto simp: generateDiagram_def message_of_def Let_def split: prod.splits)

theorem provider_failure_reraised_witness:
  "getAPIKey (services_with (Inl (Error ''Connection error.'')))
       (provider (example_request ''Build a login flow'' ''groq'')) = Some ''sk-example'' \<and>
   fst (dispatch (services_with (Inl (Error ''Connection error.'')))
          (initializeProvider fresh_service ''groq'' ''sk-example'') ''groq''
          (buildPrompt (example_request ''Build a login flow'' ''groq'')
             (allIcons (services_with (Inl (Error ''Connection error.''))))) None)
     = Inl (Error ''Connection error.'') \<and>
   fst (generateDiagram example_platform (services_with (Inl (Error ''Connection error.'')))
          fresh_service (example_request ''Build a login flow'' ''groq''))
     = Inl (Error ''Failed to generate diagram: Connection error.'')"
proof -
  let ?E = "services_with (Inl (Error ''Connection error.''))"
  let ?r = "example_request ''Build a login flow'' ''groq''"
  have a: "getAPIKey ?E (provider ?r) = Some ''sk-example''"
    by (simp add: getAPIKey_def services_with_def)
  have b: "''sk-example'' \<noteq> []" by simp
  have c: "fst (dispatch ?E (initializeProvider fresh_service (provider ?r) ''sk-example'')
            (provider ?r) (buildPrompt ?r (allIcons ?E)) (model ?r)) = Inl (Error ''Connection error.'')"
    by (simp add: dispatch_def generateWithGroq_def initializeProvider_def services_with_def
        example_request_def)
  from provider_failure_reraised [OF a b c, of example_platform] a c show ?thesis
    by (simp add: example_request_def)
qed

text \<open>
  Two companions: an unknown provider with a stored key is rejected without a provider
  request, and every diagram that \<^verbatim>\<open>generateDiagram\<close> resolves with, the fallback diagram
  included, is what \<^verbatim>\<open>parseAIResponse\<close> made of a response the provider returned.
\<close>

lemma unsupported_provider:
  assumes "getAPIKey E (provider request) = Some k" and "k \<noteq> []"
    and "provider request \<notin> {''openrouter'', ''groq'', ''gemini''}"
  shows "generateDiagram P E S request =
           (Inl (Error (''Failed to generate diagram: Unsupported provider: '' @ provider request)),
            S, [IconsRequested, PromptBuilt])"
  using assms
  by (auto simp: generateDiagram_def dispatch_def initializeProvider_def message_of_def Let_def)

lemma diagram_from_response:
  assumes "fst (generateDiagram P E S request) = Inr g"
  shows "\<exists>k response.
           getAPIKey E (provider request) = Some k \<and>
           fst (dispatch E (initializeProvider S (provider request) k) (provider request)
                  (buildPrompt request (allIcons E)) (model request)) = Inr response \<and>
           parseAIResponse P response (description request) = Inr g"
  using assms
  by (auto simp: generateDiagram_def Let_def split: option.splits if_splits prod.splits sum.splits)

section \<open>refineDescription\<close>

lemma refine_total: "\<exists>v. fst (refineDescription P E S descr p apiKey) = Inr v"
  by (auto simp: refineDescription_def Let_def split: prod.splits sum.splits option.splits)

text \<open>
  C8. Whenever the provider switch throws inside \<^verbatim>\<open>refineDescription\<close> (a failed request,
  a client that was never created, an unknown provider) or \<^verbatim>\<open>JSON.parse\<close> rejects the text
  cut from the response, the call resolves with the four fixed questions.
\<close>

theorem refine_failure_resolves:
  assumes "refine_failed P
             (fst (dispatch E
                     (case apiKey of None \<Rightarrow> S
                      | Some k \<Rightarrow> if k = [] then S else initializeProvider S p k)
                     p (Refine descr) None))"
  shows "fst (refineDescription P E S descr p apiKey) =
           Inr (JArr [ JStr ''What are the main steps in this process?'',
                       JStr ''Are there any decision points or conditions?'',
                       JStr ''Who are the main actors or users involved?'',
                       JStr ''What happens if something goes wrong?'' ])"
  using assms
  by (auto simp: refineDescription_def refine_failed_def fallbackQuestions_def Let_def
      split: prod.splits sum.splits option.splits)

theorem refine_failure_resolves_witness:
  "refine_failed example_platform
     (fst (dispatch (services_with (Inl (Error ''Connection error.'')))
             (initializeProvider fresh_service ''groq'' ''sk-example'')
             ''groq'' (Refine ''Build a login flow'') None)) \<and>
   fst (refineDescription example_platform (services_with (Inl (Error ''Connection error.'')))
          fresh_service ''Build a login flow'' ''groq'' (Some ''sk-example''))
     = Inr (JArr [ JStr ''What are the main steps in this process?'',
                 JStr ''Are there any decision points or conditions?'',
                 JStr ''Who are the main actors or users involved?'',
                 JStr ''What happens if something goes wrong?'' ]) \<and>
   refine_failed example_platform
     (fst (dispatch (services_with (Inr ''not json at all'')) fresh_service
             ''mistral'' (Refine ''Build a login flow'') None)) \<and>
   fst (refineDescription example_platform (services_with (Inr ''not json at all''))
          fresh_service ''Build a login flow'' ''mistral'' None)
     = Inr (JArr [ JStr ''What are the main steps in this process?'',
                 JStr ''Are there any decision points or conditions?'',
                 JStr ''Who are the main actors or users involved?'',
                 JStr ''What happens if something goes wrong?'' ]) \<and>
   refine_failed example_platform
     (fst (dispatch (services_with (Inr ''not json at all''))
             (initializeProvider fresh_service ''gemini'' ''sk-example'')
             ''gemini'' (Refine ''Build a login flow'') None)) \<and>
   fst (refineDescription example_platform (services_with (Inr ''not json at all''))
          fresh_service ''Build a login flow'' ''gemini'' (Some ''sk-example''))
     = Inr (JArr [ JStr ''What are the main steps in this process?'',
                 JStr ''Are there any decision points or conditions?'',
                 JStr ''Who are the main actors or users involved?'',
                 JStr ''What happens if something goes wrong?'' ])"
proof -
  have a: "refine_failed example_platform
     (fst (dispatch (services_with (Inl (Error ''Connection error.'')))
             (initializeProvider fresh_service ''groq'' ''sk-example'')
             ''groq'' (Refine ''Build a login flow'') None))"
    by (simp add: refine_failed_def dispatch_def generateWithGroq_def initializeProvider_def
        services_with_def)
  have b: "refine_failed example_platform
     (fst (dispatch (services_with (Inr ''not json at all'')) fresh_service
             ''mistral'' (Refine ''Build a login flow'') None))"
    by (simp add: refine_failed_def dispatch_def)
  have c: "refine_failed example_platform
     (fst (dispatch (services_with (Inr ''not json at all''))
             (initializeProvider fresh_service ''gemini'' ''sk-example'')
             ''gemini'' (Refine ''Build a login flow'') None))"
    by (simp add: refine_failed_def dispatch_def generateWithGemini_def initializeProvider_def
        services_with_def)
  from a have a': "fst (refineDescription example_platform
          (services_with (Inl (Error ''Connection error.'')))
          fresh_service ''Build a login flow'' ''groq'' (Some ''sk-example'')) = Inr (JArr [ JStr ''What are the main steps in this process?'',
                 JStr ''Are there any decision points or conditions?'',
                 JStr ''Who are the main actors or users involved?'',
                 JStr ''What happens if something goes wrong?'' ])"
    by (intro refine_failure_resolves) simp
  from b have b': "fst (refineDescription example_platform (services_with (Inr ''not json at all''))
          fresh_service ''Build a login flow'' ''mistral'' None) = Inr (JArr [ JStr ''What are the main steps in this process?'',
                 JStr ''Are there any decision points or conditions?'',
                 JStr ''Who are the main actors or users involved?'',
                 JStr ''What happens if something goes wrong?'' ])"
    by (intro refine_failure_resolves) simp
  from c have c': "fst (refineDescription example_platform (services_with (Inr ''not json at all''))
          fresh_service ''Build a login flow'' ''gemini'' (Some ''sk-example'')) = Inr (JArr [ JStr ''What are the main steps in this process?'',
                 JStr ''Are there any decision points or conditions?'',
                 JStr ''Who are the main actors or users involved?'',
                 JStr ''What happens if something goes wrong?'' ])"
    by (intro refine_failure_resolves) simp
  from a a' b b' c c' show ?thesis by blast
qed

text \<open>
  C10. When \<^verbatim>\<open>JSON.parse\<close> accepts the text cut from the response (the bracketed part, or
  the whole response without brackets), \<^verbatim>\<open>refineDescription\<close> resolves with the parsed
  value as it is, whatever it is: for the response \<^verbatim>\<open>42\<close> with the number 42, for a
  response around \<^verbatim>\<open>[1, 2]\<close> with an array of numbers, neither an array of strings.
\<close>

theorem refine_returns_parsed_value:
  assumes "fst (dispatch E
                  (case apiKey of None \<Rightarrow> S
                   | Some k \<Rightarrow> if k = [] then S else initializeProvider S p k)
                  p (Refine descr) None) = Inr response"
    and "JSON_parse P (jsonString_refine response) = Some v"
  shows "fst (refineDescription P E S descr p apiKey) = Inr v"
  using assms
  by (auto simp: refineDescription_def Let_def split: prod.splits sum.splits option.splits)

theorem refine_returns_parsed_value_witness:
  "fst (dispatch (services_with (Inr ''42'')) (initializeProvider fresh_service ''groq'' ''sk-example'')
          ''groq'' (Refine ''Build a login flow'') None) = Inr ''42'' \<and>
   JSON_parse example_platform (jsonString_refine ''42'') = Some (JNum 42) \<and>
   fst (refineDescription example_platform (services_with (Inr ''42'')) fresh_service
          ''Build a login flow'' ''groq'' (Some ''sk-example'')) = Inr (JNum 42) \<and>
   \<not> is_string_array (JNum 42) \<and>
   JSON_parse example_platform (jsonString_refine ''Sure: [1, 2] ok'') = Some (JArr [JNum 1, JNum 2]) \<and>
   fst (refineDescription example_platform (services_with (Inr ''Sure: [1, 2] ok'')) fresh_service
          ''Build a login flow'' ''groq'' (Some ''sk-example'')) = Inr (JArr [JNum 1, JNum 2]) \<and>
   \<not> is_string_array (JArr [JNum 1, JNum 2])"
proof -
  have d: "\<And>r. fst (dispatch (services_with (Inr r))
          (case Some ''sk-example'' of None \<Rightarrow> fresh_service
           | Some k \<Rightarrow> if k = [] then fresh_service else initializeProvider fresh_service ''groq'' k)
          ''groq'' (Refine ''Build a login flow'') None) = Inr r"
    by (simp add: dispatch_def generateWithGroq_def initializeProvider_def services_with_def)
  have p1: "JSON_parse example_platform (jsonString_refine ''42'') = Some (JNum 42)"
    by (simp add: jsonString_refine_def match_delimited_def example_defs)
  have p2: "JSON_parse example_platform (jsonString_refine ''Sure: [1, 2] ok'')
              = Some (JArr [JNum 1, JNum 2])"
    by (simp add: jsonString_refine_def match_delimited_def example_defs)
  from refine_returns_parsed_value [OF d p1] refine_returns_parsed_value [OF d p2] d [of "''42''"] p1 p2
  show ?thesis by simp
qed

end
